theory Spec2Isabelle
  imports Complex_Main "HOL-Library.Multiset"
begin

section \<open>JavaScript values used by the gateway\<close>

text \<open>
  Strings are lists of characters. An optional property of a request or response object
  is an \<open>option\<close>: \<open>None\<close> stands for a property that is missing (\<open>undefined\<close>) or
  \<open>null\<close>, where the code treats the two alike. Token counts are integers. Every other
  number is a double: its value is a real, and an arithmetic operation of the source
  rounds the exact result with \<open>fl\<close>, the rounding of a real to the nearest double, which
  the functions below take as a parameter; \<open>NaN\<close> is a value of its own.
\<close>

text \<open>\<open>String.prototype.startsWith\<close>.\<close>

fun startsWith :: "string \<Rightarrow> string \<Rightarrow> bool" where
  "startsWith s [] = True"
| "startsWith [] (c # cs) = False"
| "startsWith (d # ds) (c # cs) = (d = c \<and> startsWith ds cs)"

text \<open>\<open>String.prototype.includes\<close>: the needle occurs at some position of the string.\<close>

fun includes_str :: "string \<Rightarrow> string \<Rightarrow> bool" where
  "includes_str [] t = (t = [])"
| "includes_str (c # cs) t = (startsWith (c # cs) t \<or> includes_str cs t)"


text \<open>
  \<open>String.prototype.toLowerCase\<close> on the letters A to Z. No character outside ASCII
  lower-cases to a letter of the provider aliases, so the comparison of the dispatcher is
  decided by this mapping.
\<close>

definition lower_char :: "char \<Rightarrow> char" where
  "lower_char c =
     (let n = (of_char c :: nat) in if 65 \<le> n \<and> n \<le> 90 then char_of (n + 32) else c)"

definition toLowerCase :: "string \<Rightarrow> string" where
  "toLowerCase s = map lower_char s"

text \<open>\<open>x || d\<close> for an optional string: a missing or empty string is falsy.\<close>

definition or_string :: "string option \<Rightarrow> string \<Rightarrow> string" where
  "or_string x d = (case x of None \<Rightarrow> d | Some s \<Rightarrow> if s = [] then d else s)"

text \<open>\<open>x || d\<close> for an optional number: a missing number and zero are falsy.\<close>

definition or_int :: "int option \<Rightarrow> int \<Rightarrow> int" where
  "or_int x d = (case x of None \<Rightarrow> d | Some n \<Rightarrow> if n = 0 then d else n)"

text \<open>Numbers, and the sum and the product of two of them.\<close>

datatype jsnum =
    Num real
  | NaN

definition js_add :: "(real \<Rightarrow> real) \<Rightarrow> jsnum \<Rightarrow> jsnum \<Rightarrow> jsnum" where
  "js_add fl a b =
     (case a of
        Num x \<Rightarrow> (case b of Num y \<Rightarrow> Num (fl (x + y)) | NaN \<Rightarrow> NaN)
      | NaN \<Rightarrow> NaN)"

definition js_mul :: "(real \<Rightarrow> real) \<Rightarrow> jsnum \<Rightarrow> jsnum \<Rightarrow> jsnum" where
  "js_mul fl a b =
     (case a of
        Num x \<Rightarrow> (case b of Num y \<Rightarrow> Num (fl (x * y)) | NaN \<Rightarrow> NaN)
      | NaN \<Rightarrow> NaN)"

text \<open>
  A plain object answers the read \<open>obj[key]\<close> with its own property of that name; when
  it has none, with the member of \<open>Object.prototype\<close> of that name; and with
  \<open>undefined\<close> when there is none either. The members are functions, and \<open>__proto__\<close>
  is the prototype object itself, so that each of them is truthy. The list is that of a
  Node process at its start. The gateway adds to it in one way only: an update for the
  user id \<open>__proto__\<close> writes \<open>lastSeen\<close> to the prototype before it fails, and the
  functions below describe a process in which that has not happened.
\<close>

definition object_prototype_members :: "string list" where
  "object_prototype_members =
     [''constructor'', ''__defineGetter__'', ''__defineSetter__'', ''hasOwnProperty'',
      ''__lookupGetter__'', ''__lookupSetter__'', ''isPrototypeOf'', ''propertyIsEnumerable'',
      ''toString'', ''valueOf'', ''__proto__'', ''toLocaleString'']"

datatype 'a property =
    Own 'a
  | Inherited
  | Absent

definition js_get :: "(string \<rightharpoonup> 'a) \<Rightarrow> string \<Rightarrow> 'a property" where
  "js_get obj key =
     (case obj key of
        Some v \<Rightarrow> Own v
      | None \<Rightarrow> if key \<in> set object_prototype_members then Inherited else Absent)"

section \<open>Usage logger: provider detection\<close>

text \<open>
  The model that the logging middleware reads from \<open>req.body?.model\<close>: \<open>undefined\<close>
  when the body has no such property, \<open>null\<close>, or a string. For the first two,
  \<open>model?.includes(...)\<close> is \<open>undefined\<close>, which is falsy.
\<close>

datatype model_field =
    Undefined
  | Null
  | Model string

definition model_includes :: "model_field \<Rightarrow> string \<Rightarrow> bool" where
  "model_includes model t = (case model of Model m \<Rightarrow> includes_str m t | _ \<Rightarrow> False)"

definition detectProvider :: "string \<Rightarrow> model_field \<Rightarrow> string" where
  "detectProvider endpoint model =
     (if includes_str endpoint ''anthropic'' \<or> model_includes model ''claude'' then ''anthropic''
      else if includes_str endpoint ''google'' \<or> model_includes model ''gemini'' then ''google''
      else ''openai'')"

section \<open>Unified schema: requests and messages\<close>

text \<open>
  A message content is a plain string or an array of parts; \<open>NoContent\<close> is a missing
  content. A part is read through its \<open>type\<close>: \<open>text\<close> (with \<open>item.text\<close>),
  \<open>image_url\<close> (with \<open>item.image_url.url\<close>), or anything else.
\<close>

datatype content_item =
    TextItem string
  | ImageUrlItem string
  | OtherItem

datatype msg_content =
    StringContent string
  | ArrayContent "content_item list"
  | NoContent

record message =
  role :: string
  content :: msg_content

text \<open>The fields of \<open>req.body\<close> that the chat handlers read.\<close>

record request_body =
  body_provider :: "string option"
  body_model :: "string option"
  body_max_tokens :: "int option"
  body_messages :: "message list option"
  body_system :: "string option"

section \<open>Unified dispatch\<close>

text \<open>
  The handler of \<open>POST /api/unified/chat\<close> either rewrites \<open>req.url\<close> and hands the
  request back to the router, whose provider handler then performs the upstream call, or
  answers by itself with a status and an error body.
\<close>

record error_body =
  err_message :: string
  err_type :: string

datatype dispatch =
    Handle string
  | Respond nat error_body

definition unified_chat :: "request_body \<Rightarrow> dispatch" where
  "unified_chat body =
     (let provider = or_string (body_provider body) ''openai'';
          key = toLowerCase provider
      in if key = ''openai'' then Handle ''/api/chat/completions''
         else if key = ''anthropic'' \<or> key = ''claude'' then Handle ''/api/anthropic/messages''
         else if key = ''google'' \<or> key = ''gemini'' then Handle ''/api/google/generateContent''
         else Respond 400
           \<lparr>err_message = ''Unknown provider: '' @ provider, err_type = ''invalid_request''\<rparr>)"

section \<open>Anthropic adapter: request translation\<close>

text \<open>
  The object \<open>anthropicRequest\<close> that the handler of \<open>POST /api/anthropic/messages\<close>
  posts upstream. A property whose value is \<open>undefined\<close> is left out of the JSON body.
\<close>

record anthropic_request =
  ar_model :: string
  ar_max_tokens :: int
  ar_messages :: "message list option"
  ar_system :: "string option"

definition anthropicRequest :: "request_body \<Rightarrow> anthropic_request" where
  "anthropicRequest body =
     \<lparr>ar_model = or_string (body_model body) ''claude-sonnet-4-20250514'',
      ar_max_tokens = or_int (body_max_tokens body) 4096,
      ar_messages = body_messages body,
      ar_system = body_system body\<rparr>"

text \<open>
  The translation as the specification words it: the system-role messages leave the list
  and their contents, joined by line breaks, become the system field.
\<close>

definition content_text :: "msg_content \<Rightarrow> string" where
  "content_text c = (case c of StringContent s \<Rightarrow> s | _ \<Rightarrow> [])"

fun join_lines :: "string list \<Rightarrow> string" where
  "join_lines [] = []"
| "join_lines [s] = s"
| "join_lines (s # t # ss) = s @ [CHR 0x0A] @ join_lines (t # ss)"

definition spec_anthropic_messages :: "message list \<Rightarrow> message list" where
  "spec_anthropic_messages ms = filter (\<lambda>m. role m \<noteq> ''system'') ms"

definition spec_anthropic_system :: "message list \<Rightarrow> string option" where
  "spec_anthropic_system ms =
     (let sys = filter (\<lambda>m. role m = ''system'') ms
      in if sys = [] then None else Some (join_lines (map (\<lambda>m. content_text (content m)) sys)))"

section \<open>Google adapter: request translation\<close>

datatype gemini_part =
    Text string
  | InlineData string string

record gemini_content =
  g_role :: string
  g_parts :: "gemini_part list"

text \<open>
  The variable \<open>systemPrompt\<close> holds \<open>''\<close> or the content of a system message. It is
  tested for truthiness (an empty string and a missing value are falsy, an array is
  truthy) and interpolated into a template string (an array prints its elements
  separated by commas, and each part object prints as \<open>[object Object]\<close>).
\<close>

definition truthy :: "msg_content \<Rightarrow> bool" where
  "truthy c = (case c of StringContent s \<Rightarrow> s \<noteq> [] | ArrayContent items \<Rightarrow> True | NoContent \<Rightarrow> False)"

fun join_commas :: "string list \<Rightarrow> string" where
  "join_commas [] = []"
| "join_commas [s] = s"
| "join_commas (s # t # ss) = s @ '','' @ join_commas (t # ss)"

definition to_string :: "msg_content \<Rightarrow> string" where
  "to_string c =
     (case c of
        StringContent s \<Rightarrow> s
      | ArrayContent items \<Rightarrow> join_commas (map (\<lambda>i. ''[object Object]'') items)
      | NoContent \<Rightarrow> ''undefined'')"

text \<open>The template \<open>`${systemPrompt}\n\n${text}`\<close>.\<close>

definition with_system :: "msg_content \<Rightarrow> string \<Rightarrow> string" where
  "with_system systemPrompt t = to_string systemPrompt @ [CHR 0x0A, CHR 0x0A] @ t"

text \<open>
  \<open>imageUrl.match(/^data:([^;]+);base64,(.+)$/)\<close>: the MIME type is the non-empty run of
  characters up to the first semicolon, and the data is the non-empty rest after
  \<open>;base64,\<close>, which holds no line terminator (of those, a \<open>char\<close> can be a line feed or
  a carriage return).
\<close>

definition line_terminator :: "char \<Rightarrow> bool" where
  "line_terminator c = (c = CHR 0x0A \<or> c = CHR 0x0D)"

definition match_data_url :: "string \<Rightarrow> (string \<times> string) option" where
  "match_data_url imageUrl =
     (if startsWith imageUrl ''data:'' then
        (let rest = drop 5 imageUrl;
             mime = takeWhile (\<lambda>c. c \<noteq> CHR '';'') rest;
             tail = dropWhile (\<lambda>c. c \<noteq> CHR '';'') rest;
             payload = drop 8 tail
         in if mime \<noteq> [] \<and> startsWith tail '';base64,'' \<and> payload \<noteq> []
               \<and> \<not> list_ex line_terminator payload
            then Some (mime, payload) else None)
      else None)"

text \<open>
  The loop over the parts of one array content. It carries \<open>systemPrompt\<close> and the
  \<open>parts\<close> built so far; \<open>n\<close> is \<open>contents.length\<close>, which does not change inside.
\<close>

fun convert_items ::
  "string \<Rightarrow> nat \<Rightarrow> content_item list \<Rightarrow> msg_content \<Rightarrow> gemini_part list
     \<Rightarrow> gemini_part list \<times> msg_content" where
  "convert_items r n [] systemPrompt parts = (parts, systemPrompt)"
| "convert_items r n (TextItem t # items) systemPrompt parts =
     (if r = ''user'' \<and> truthy systemPrompt \<and> n = 0
      then convert_items r n items (StringContent []) (parts @ [Text (with_system systemPrompt t)])
      else convert_items r n items systemPrompt (parts @ [Text t]))"
| "convert_items r n (ImageUrlItem imageUrl # items) systemPrompt parts =
     (if startsWith imageUrl ''data:'' then
        (case match_data_url imageUrl of
           Some (mime, payload) \<Rightarrow>
             convert_items r n items systemPrompt (parts @ [InlineData mime payload])
         | None \<Rightarrow> convert_items r n items systemPrompt parts)
      else convert_items r n items systemPrompt parts)"
| "convert_items r n (OtherItem # items) systemPrompt parts =
     convert_items r n items systemPrompt parts"

text \<open>The parts of one message that is not a system message, and the new \<open>systemPrompt\<close>.\<close>

definition message_parts ::
  "string \<Rightarrow> nat \<Rightarrow> msg_content \<Rightarrow> msg_content \<Rightarrow> gemini_part list \<times> msg_content" where
  "message_parts r n c systemPrompt =
     (case c of
        StringContent s \<Rightarrow>
          (if r = ''user'' \<and> truthy systemPrompt \<and> n = 0
           then ([Text (with_system systemPrompt s)], StringContent [])
           else ([Text s], systemPrompt))
      | ArrayContent items \<Rightarrow> convert_items r n items systemPrompt []
      | NoContent \<Rightarrow> ([], systemPrompt))"

text \<open>The loop \<open>for (const msg of messages)\<close> with its two variables.\<close>

fun gemini_loop ::
  "message list \<Rightarrow> msg_content \<Rightarrow> gemini_content list \<Rightarrow> gemini_content list" where
  "gemini_loop [] systemPrompt contents = contents"
| "gemini_loop (msg # msgs) systemPrompt contents =
     (if role msg = ''system'' then gemini_loop msgs (content msg) contents
      else
        (let r = (if role msg = ''assistant'' then ''model'' else ''user'');
             res = message_parts r (length contents) (content msg) systemPrompt
         in gemini_loop msgs (snd res) (contents @ [\<lparr>g_role = r, g_parts = fst res\<rparr>])))"

definition transformMessagesToGeminiFormat :: "message list option \<Rightarrow> gemini_content list" where
  "transformMessagesToGeminiFormat messages =
     (case messages of None \<Rightarrow> [] | Some msgs \<Rightarrow> gemini_loop msgs (StringContent []) [])"

text \<open>
  The translation in closed form, for the theorem on it. A message into which no system
  prompt is merged gives its text parts and its decodable images as they are; a message
  into which the prompt \<open>p\<close> is merged carries it, followed by a blank line, in the
  first text part only. The system prompt in force is the content of the last system
  message ahead of the first other message.
\<close>

definition gemini_role :: "message \<Rightarrow> string" where
  "gemini_role m = (if role m = ''assistant'' then ''model'' else ''user'')"

definition image_part :: "string \<Rightarrow> gemini_part list" where
  "image_part imageUrl =
     (case match_data_url imageUrl of Some (mime, payload) \<Rightarrow> [InlineData mime payload] | None \<Rightarrow> [])"

fun plain_items :: "content_item list \<Rightarrow> gemini_part list" where
  "plain_items [] = []"
| "plain_items (TextItem t # items) = Text t # plain_items items"
| "plain_items (ImageUrlItem imageUrl # items) = image_part imageUrl @ plain_items items"
| "plain_items (OtherItem # items) = plain_items items"

fun merged_items :: "string \<Rightarrow> content_item list \<Rightarrow> gemini_part list" where
  "merged_items p [] = []"
| "merged_items p (TextItem t # items) = Text (p @ [CHR 0x0A, CHR 0x0A] @ t) # plain_items items"
| "merged_items p (ImageUrlItem imageUrl # items) = image_part imageUrl @ merged_items p items"
| "merged_items p (OtherItem # items) = merged_items p items"

definition plain_parts :: "msg_content \<Rightarrow> gemini_part list" where
  "plain_parts c =
     (case c of
        StringContent s \<Rightarrow> [Text s]
      | ArrayContent items \<Rightarrow> plain_items items
      | NoContent \<Rightarrow> [])"

definition merged_parts :: "string \<Rightarrow> msg_content \<Rightarrow> gemini_part list" where
  "merged_parts p c =
     (case c of
        StringContent s \<Rightarrow> [Text (p @ [CHR 0x0A, CHR 0x0A] @ s)]
      | ArrayContent items \<Rightarrow> merged_items p items
      | NoContent \<Rightarrow> [])"

definition plain_entry :: "message \<Rightarrow> gemini_content" where
  "plain_entry m = \<lparr>g_role = gemini_role m, g_parts = plain_parts (content m)\<rparr>"

definition non_system :: "message list \<Rightarrow> message list" where
  "non_system ms = filter (\<lambda>m. role m \<noteq> ''system'') ms"

fun leading_system :: "msg_content \<Rightarrow> message list \<Rightarrow> msg_content" where
  "leading_system sp [] = sp"
| "leading_system sp (m # ms) =
     (if role m = ''system'' then leading_system (content m) ms else sp)"

definition system_prompt_of :: "message list \<Rightarrow> msg_content" where
  "system_prompt_of ms = leading_system (StringContent []) ms"

section \<open>Google adapter: response translation\<close>

text \<open>
  The part of the provider response that the finish reason is read from:
  \<open>response.data.candidates?.[0]?.finishReason\<close>.
\<close>

record candidate =
  finishReason :: "string option"

record google_response =
  candidates :: "candidate list option"

definition first_finishReason :: "google_response \<Rightarrow> string option" where
  "first_finishReason r =
     (case candidates r of
        None \<Rightarrow> None
      | Some [] \<Rightarrow> None
      | Some (c # cs) \<Rightarrow> finishReason c)"

definition google_finish_reason :: "google_response \<Rightarrow> string" where
  "google_finish_reason r =
     (if first_finishReason r = Some ''STOP'' then ''stop'' else ''length'')"

section \<open>Anthropic adapter: usage of the translated response\<close>

text \<open>The usage block of a chat completion, as every handler hands it to \<open>res.json\<close>.\<close>

record usage =
  prompt_tokens :: int
  completion_tokens :: int
  total_tokens :: int

record anthropic_usage =
  input_tokens :: "int option"
  output_tokens :: "int option"

definition usage_field :: "('u \<Rightarrow> int option) \<Rightarrow> 'u option \<Rightarrow> int option" where
  "usage_field f u = (case u of None \<Rightarrow> None | Some v \<Rightarrow> f v)"

definition anthropic_response_usage :: "anthropic_usage option \<Rightarrow> usage" where
  "anthropic_response_usage u =
     \<lparr>prompt_tokens = or_int (usage_field input_tokens u) 0,
      completion_tokens = or_int (usage_field output_tokens u) 0,
      total_tokens = or_int (usage_field input_tokens u) 0 + or_int (usage_field output_tokens u) 0\<rparr>"

section \<open>Usage logger: cost\<close>

record rates =
  rate_input :: real
  rate_output :: real

text \<open>The tables \<open>pricing\<close> and \<open>defaultPricing\<close>, in dollars per million tokens.\<close>

definition pricing :: "(string \<times> rates) list" where
  "pricing =
     [(''gpt-4'', \<lparr>rate_input = 30, rate_output = 60\<rparr>),
      (''gpt-4o'', \<lparr>rate_input = 5, rate_output = 15\<rparr>),
      (''gpt-4o-mini'', \<lparr>rate_input = 15 / 100, rate_output = 6 / 10\<rparr>),
      (''gpt-5'', \<lparr>rate_input = 10, rate_output = 30\<rparr>),
      (''gpt-5.2'', \<lparr>rate_input = 12, rate_output = 36\<rparr>),
      (''gpt-5-nano'', \<lparr>rate_input = 2, rate_output = 6\<rparr>),
      (''o1-preview'', \<lparr>rate_input = 15, rate_output = 60\<rparr>),
      (''o1-mini'', \<lparr>rate_input = 3, rate_output = 12\<rparr>),
      (''gpt-3.5-turbo'', \<lparr>rate_input = 5 / 10, rate_output = 15 / 10\<rparr>),
      (''claude-sonnet-4-20250514'', \<lparr>rate_input = 3, rate_output = 15\<rparr>),
      (''claude-3-5-sonnet-20241022'', \<lparr>rate_input = 3, rate_output = 15\<rparr>),
      (''claude-3-opus-20240229'', \<lparr>rate_input = 15, rate_output = 75\<rparr>),
      (''claude-3-haiku-20240307'', \<lparr>rate_input = 25 / 100, rate_output = 125 / 100\<rparr>),
      (''gemini-2.5-pro'', \<lparr>rate_input = 125 / 100, rate_output = 5\<rparr>),
      (''gemini-2.0-flash'', \<lparr>rate_input = 75 / 1000, rate_output = 3 / 10\<rparr>),
      (''gemini-1.5-pro'', \<lparr>rate_input = 125 / 100, rate_output = 5\<rparr>),
      (''gemini-1.5-flash'', \<lparr>rate_input = 75 / 1000, rate_output = 3 / 10\<rparr>)]"

definition defaultPricing :: "(string \<times> rates) list" where
  "defaultPricing =
     [(''openai'', \<lparr>rate_input = 5, rate_output = 15\<rparr>),
      (''anthropic'', \<lparr>rate_input = 3, rate_output = 15\<rparr>),
      (''google'', \<lparr>rate_input = 125 / 100, rate_output = 5\<rparr>)]"

text \<open>A model used as a property key is converted to a string.\<close>

definition property_key :: "model_field \<Rightarrow> string" where
  "property_key k = (case k of Undefined \<Rightarrow> ''undefined'' | Null \<Rightarrow> ''null'' | Model s \<Rightarrow> s)"

text \<open>
  \<open>pricing[model] || defaultPricing[provider] || defaultPricing['openai']\<close>: the first
  truthy value, which is an entry of a table or a member of \<open>Object.prototype\<close>.
\<close>

datatype pricing_value =
    Rates rates
  | Member

definition modelPricing :: "model_field \<Rightarrow> string \<Rightarrow> pricing_value" where
  "modelPricing model provider =
     (case js_get (map_of pricing) (property_key model) of
        Own r \<Rightarrow> Rates r
      | Inherited \<Rightarrow> Member
      | Absent \<Rightarrow>
          (case js_get (map_of defaultPricing) provider of
             Own r \<Rightarrow> Rates r
           | Inherited \<Rightarrow> Member
           | Absent \<Rightarrow>
               (case js_get (map_of defaultPricing) ''openai'' of
                  Own r \<Rightarrow> Rates r
                | _ \<Rightarrow> Member)))"

text \<open>
  \<open>modelPricing.input\<close> and \<open>modelPricing.output\<close> as factors of a product: the double
  of the literal in the table, and \<open>NaN\<close> for a member of \<open>Object.prototype\<close>, which
  has no such property.
\<close>

definition rate_of :: "(real \<Rightarrow> real) \<Rightarrow> (rates \<Rightarrow> real) \<Rightarrow> pricing_value \<Rightarrow> jsnum" where
  "rate_of fl f mp = (case mp of Rates r \<Rightarrow> Num (fl (f r)) | Member \<Rightarrow> NaN)"

text \<open>
  \<open>calculateCost(model, usage, provider = 'openai')\<close>: the default of the third
  parameter applies when the caller passes none.
\<close>

definition calculateCost ::
  "(real \<Rightarrow> real) \<Rightarrow> model_field \<Rightarrow> usage option \<Rightarrow> string option \<Rightarrow> jsnum" where
  "calculateCost fl model u provider_arg =
     (case u of
        None \<Rightarrow> Num 0
      | Some us \<Rightarrow>
          (let provider = (case provider_arg of None \<Rightarrow> ''openai'' | Some p \<Rightarrow> p);
               mp = modelPricing model provider;
               inputCost = js_mul fl (Num (fl (real_of_int (prompt_tokens us) / 1000000)))
                             (rate_of fl rate_input mp);
               outputCost = js_mul fl (Num (fl (real_of_int (completion_tokens us) / 1000000)))
                              (rate_of fl rate_output mp)
           in js_add fl inputCost outputCost))"

text \<open>The formula of the specification in doubles, for given rates.\<close>

definition cost_at :: "(real \<Rightarrow> real) \<Rightarrow> rates \<Rightarrow> usage \<Rightarrow> real" where
  "cost_at fl r u =
     fl (fl (fl (real_of_int (prompt_tokens u) / 1000000) * fl (rate_input r))
          + fl (fl (real_of_int (completion_tokens u) / 1000000) * fl (rate_output r)))"


section \<open>Usage logger: the log entry\<close>

text \<open>
  A timestamp is the time value of a \<open>Date\<close> in milliseconds; \<open>toISOString\<close> prints it
  in UTC, and the part before the \<open>T\<close> is the calendar day, here the day number.
\<close>

type_synonym timestamp = int

definition day_of :: "timestamp \<Rightarrow> int" where
  "day_of t = t div 86400000"

text \<open>
  The response payload that the logging middleware observes. Its \<open>error\<close> is missing
  (or falsy) or a value whose \<open>message\<close> may be missing; a payload that is itself falsy
  is \<open>None\<close>.
\<close>

record error_value =
  ev_message :: "string option"

record response_data =
  rd_usage :: "usage option"
  rd_error :: "error_value option"

record tokens =
  tok_prompt :: int
  tok_completion :: int
  tok_total :: int

record log_entry =
  e_timestamp :: timestamp
  e_userId :: string
  e_endpoint :: string
  e_provider :: string
  e_model :: model_field
  e_tokens :: tokens
  e_cost :: jsnum
  e_success :: bool
  e_error :: "string option"

text \<open>\<open>responseData?.usage\<close> and \<open>responseData?.usage?.f || 0\<close>.\<close>

definition response_usage :: "response_data option \<Rightarrow> usage option" where
  "response_usage responseData = (case responseData of None \<Rightarrow> None | Some r \<Rightarrow> rd_usage r)"

definition usage_or_zero :: "(usage \<Rightarrow> int) \<Rightarrow> response_data option \<Rightarrow> int" where
  "usage_or_zero f responseData =
     or_int (case response_usage responseData of None \<Rightarrow> None | Some u \<Rightarrow> Some (f u)) 0"

text \<open>\<open>responseData?.error?.message || null\<close>.\<close>

definition response_error_message :: "response_data option \<Rightarrow> string option" where
  "response_error_message responseData =
     (case responseData of
        None \<Rightarrow> None
      | Some r \<Rightarrow>
          (case rd_error r of
             None \<Rightarrow> None
           | Some ev \<Rightarrow>
               (case ev_message ev of
                  None \<Rightarrow> None
                | Some m \<Rightarrow> if m = [] then None else Some m)))"

text \<open>The object \<open>logEntry\<close> of \<open>logRequest\<close>; \<open>now\<close> is the value of \<open>new Date()\<close>.\<close>

definition logEntry ::
  "(real \<Rightarrow> real) \<Rightarrow> timestamp \<Rightarrow> string \<Rightarrow> string \<Rightarrow> model_field \<Rightarrow> response_data option
     \<Rightarrow> log_entry" where
  "logEntry fl now userId endpoint model responseData =
     (let provider = detectProvider endpoint model
      in \<lparr>e_timestamp = now,
          e_userId = userId,
          e_endpoint = endpoint,
          e_provider = provider,
          e_model = model,
          e_tokens =
            \<lparr>tok_prompt = usage_or_zero prompt_tokens responseData,
             tok_completion = usage_or_zero completion_tokens responseData,
             tok_total = usage_or_zero total_tokens responseData\<rparr>,
          e_cost = calculateCost fl model (response_usage responseData) (Some provider),
          e_success = (case responseData of None \<Rightarrow> False | Some r \<Rightarrow> rd_error r = None),
          e_error = response_error_message responseData\<rparr>)"

section \<open>Analytics store: the summary document\<close>

text \<open>
  A counter of a summary is a number, or the string that an increment has made of a
  member of \<open>Object.prototype\<close>.
\<close>

datatype count_value =
    Count nat
  | Junk string

text \<open>
  A summary as the document holds it. \<open>totalRequests\<close> counts calls one by one and stays
  an exact integer; \<open>totalTokens\<close> and \<open>totalCost\<close> are doubles, and \<open>totalCost\<close> is
  \<open>null\<close> (\<open>None\<close>) after a \<open>NaN\<close> has been written, since \<open>JSON.stringify\<close> prints
  \<open>NaN\<close> as \<open>null\<close>.
\<close>

record user_summary =
  firstSeen :: timestamp
  lastSeen :: "timestamp option"
  totalRequests :: nat
  totalTokens :: real
  totalCost :: "real option"
  endpointCounts :: "string \<rightharpoonup> count_value"
  modelCounts :: "string \<rightharpoonup> count_value"
  providerCounts :: "string \<rightharpoonup> count_value"

type_synonym summaries = "string \<rightharpoonup> user_summary"

text \<open>
  The file \<open>user_summaries.json\<close>: it is missing or holds no JSON (\<open>Unreadable\<close>); or
  it holds \<open>null\<close>, a boolean, a number or a string (\<open>Scalar\<close>); or it holds an object
  or an array, given by the summaries among its own properties. Of an array,
  \<open>JSON.stringify\<close> prints the elements only, and an element that is missing or
  \<open>null\<close> is no summary. Writing a document and reading it back gives the same document.
\<close>

datatype doc_kind =
    ObjectDoc
  | ArrayDoc

datatype summary_file =
    Unreadable
  | Scalar
  | Document doc_kind summaries

text \<open>A property name is an array index when it is the decimal numeral of a number below \<open>2^32 - 1\<close>.\<close>

definition is_digit :: "char \<Rightarrow> bool" where
  "is_digit c = (let n = (of_char c :: int) in 48 \<le> n \<and> n \<le> 57)"

definition digits_value :: "string \<Rightarrow> int" where
  "digits_value s = foldl (\<lambda>n c. 10 * n + (of_char c - 48)) 0 s"

definition is_array_index :: "string \<Rightarrow> bool" where
  "is_array_index s =
     (s \<noteq> [] \<and> list_all is_digit s \<and> (s = ''0'' \<or> hd s \<noteq> CHR ''0'')
      \<and> digits_value s \<le> 4294967294)"

text \<open>
  \<open>String(f)\<close> for a member \<open>f\<close> of \<open>Object.prototype\<close>, as Node prints a built-in
  function; the member \<open>constructor\<close> is the function \<open>Object\<close>.
\<close>

definition member_source :: "string \<Rightarrow> string" where
  "member_source k =
     ''function '' @ (if k = ''constructor'' then ''Object'' else k) @ ''() { [native code] }''"

text \<open>
  \<open>counts[k] = (counts[k] || 0) + 1\<close>. A number is incremented; a string has \<open>1\<close>
  appended; an inherited member is truthy and is turned into a string, which the
  assignment stores as an own property, except under the name \<open>__proto__\<close>, whose
  setter ignores a string.
\<close>

definition increment :: "(string \<rightharpoonup> count_value) \<Rightarrow> string \<Rightarrow> (string \<rightharpoonup> count_value)" where
  "increment counts k =
     (case js_get counts k of
        Own (Count c) \<Rightarrow> counts(k \<mapsto> Count ((if c = 0 then 0 else c) + 1))
      | Own (Junk s) \<Rightarrow> counts(k \<mapsto> (if s = [] then Count 1 else Junk (s @ ''1'')))
      | Inherited \<Rightarrow>
          (if k = ''__proto__'' then counts else counts(k \<mapsto> Junk (member_source k @ ''1'')))
      | Absent \<Rightarrow> counts(k \<mapsto> Count 1))"

definition fresh_summary :: "log_entry \<Rightarrow> user_summary" where
  "fresh_summary entry =
     \<lparr>firstSeen = e_timestamp entry,
      lastSeen = None,
      totalRequests = 0,
      totalTokens = 0,
      totalCost = Some 0,
      endpointCounts = Map.empty,
      modelCounts = Map.empty,
      providerCounts = Map.empty\<rparr>"

text \<open>
  The stored \<open>totalCost\<close> as an operand of \<open>+=\<close> (\<open>null\<close> counts as zero), and the
  result as \<open>JSON.stringify\<close> prints it.
\<close>

definition stored_number :: "real option \<Rightarrow> jsnum" where
  "stored_number x = (case x of None \<Rightarrow> Num 0 | Some r \<Rightarrow> Num r)"

definition printed_number :: "jsnum \<Rightarrow> real option" where
  "printed_number x = (case x of Num r \<Rightarrow> Some r | NaN \<Rightarrow> None)"

definition apply_entry :: "(real \<Rightarrow> real) \<Rightarrow> user_summary \<Rightarrow> log_entry \<Rightarrow> user_summary" where
  "apply_entry fl userSummary entry =
     userSummary
       \<lparr>totalRequests := totalRequests userSummary + 1,
        totalTokens := fl (totalTokens userSummary + real_of_int (tok_total (e_tokens entry))),
        totalCost := printed_number (js_add fl (stored_number (totalCost userSummary)) (e_cost entry)),
        lastSeen := Some (e_timestamp entry),
        endpointCounts := increment (endpointCounts userSummary) (e_endpoint entry),
        modelCounts := increment (modelCounts userSummary) (property_key (e_model entry)),
        providerCounts := increment (providerCounts userSummary) (e_provider entry)\<rparr>"

text \<open>
  \<open>updateUserSummary(userId, logEntry)\<close> as a function on the content of the summary
  file, for a file system that carries out the read and the write. An error thrown on
  the way is caught and nothing is written. That happens for a \<open>Scalar\<close>, which has
  no summary to update; and for a user id that the object has not as its own property
  but inherits, since the inherited member is truthy, no summary is created, and the
  member has no \<open>endpointCounts\<close> to index. In an array, a summary stored under a name
  that is no index is not printed.
\<close>

definition updateUserSummary ::
  "(real \<Rightarrow> real) \<Rightarrow> string \<Rightarrow> log_entry \<Rightarrow> summary_file \<Rightarrow> summary_file" where
  "updateUserSummary fl userId entry summaryFile =
     (case summaryFile of
        Scalar \<Rightarrow> Scalar
      | Unreadable \<Rightarrow>
          (case js_get Map.empty userId of
             Own s \<Rightarrow> Document ObjectDoc [userId \<mapsto> apply_entry fl s entry]
           | Inherited \<Rightarrow> Unreadable
           | Absent \<Rightarrow> Document ObjectDoc [userId \<mapsto> apply_entry fl (fresh_summary entry) entry])
      | Document ObjectDoc summaries \<Rightarrow>
          (case js_get summaries userId of
             Own s \<Rightarrow> Document ObjectDoc (summaries(userId \<mapsto> apply_entry fl s entry))
           | Inherited \<Rightarrow> Document ObjectDoc summaries
           | Absent \<Rightarrow>
               Document ObjectDoc
                 (summaries(userId \<mapsto> apply_entry fl (fresh_summary entry) entry)))
      | Document ArrayDoc summaries \<Rightarrow>
          (case summaries userId of
             Some s \<Rightarrow> Document ArrayDoc (summaries(userId \<mapsto> apply_entry fl s entry))
           | None \<Rightarrow>
               if is_array_index userId
               then Document ArrayDoc
                      (summaries(userId \<mapsto> apply_entry fl (fresh_summary entry) entry))
               else Document ArrayDoc summaries))"

text \<open>One update after the other, none overlapping the next.\<close>

fun update_all ::
  "(real \<Rightarrow> real) \<Rightarrow> string \<Rightarrow> log_entry list \<Rightarrow> summary_file \<Rightarrow> summary_file" where
  "update_all fl userId [] summaryFile = summaryFile"
| "update_all fl userId (entry # entries) summaryFile =
     update_all fl userId entries (updateUserSummary fl userId entry summaryFile)"

text \<open>The summary that the document holds for a user id, if it holds one.\<close>

definition stored_summary :: "string \<Rightarrow> summary_file \<Rightarrow> user_summary option" where
  "stored_summary userId summaryFile =
     (case summaryFile of Document kind summaries \<Rightarrow> summaries userId | _ \<Rightarrow> None)"

text \<open>
  The number of occurrences of a key, as a counter object holds it: a key that never
  occurred is no property of the object.
\<close>

definition tally :: "string list \<Rightarrow> string \<Rightarrow> count_value option" where
  "tally ks k = (if count_list ks k = 0 then None else Some (Count (count_list ks k)))"

text \<open>The running sums that \<open>+=\<close> computes from left to right.\<close>

definition tokens_sum :: "(real \<Rightarrow> real) \<Rightarrow> log_entry list \<Rightarrow> real" where
  "tokens_sum fl entries =
     foldl (\<lambda>a e. fl (a + real_of_int (tok_total (e_tokens e)))) 0 entries"

definition cost_sum :: "(real \<Rightarrow> real) \<Rightarrow> log_entry list \<Rightarrow> real option" where
  "cost_sum fl entries =
     foldl (\<lambda>a e. printed_number (js_add fl (stored_number a) (e_cost e))) (Some 0) entries"

section \<open>Analytics store: the daily log files\<close>

text \<open>
  A line of a daily file, as \<open>getRecentLogs\<close> sees it: \<open>JSON.parse\<close> fails on it
  (\<open>Unparsable\<close>); or it parses to a value whose \<open>timestamp\<close> gives no valid date
  (\<open>Undated\<close>), so that its age is \<open>NaN\<close>; or it parses to a value whose timestamp has
  the given time value (\<open>Dated\<close>). The files are indexed by day number, and \<open>None\<close>
  is a file that cannot be read.
\<close>

datatype 'a log_line =
    Unparsable
  | Undated 'a
  | Dated timestamp 'a

type_synonym 'a log_files = "int \<Rightarrow> 'a log_line list option"

text \<open>\<open>fs.appendFile(logFile, JSON.stringify(logEntry) + '\n')\<close> for the file of the entry's day.\<close>

definition appendLog :: "log_entry \<Rightarrow> log_entry log_files \<Rightarrow> log_entry log_files" where
  "appendLog entry files =
     (let date = day_of (e_timestamp entry);
          old = (case files date of None \<Rightarrow> [] | Some ls \<Rightarrow> ls)
      in files(date := Some (old @ [Dated (e_timestamp entry) entry])))"

record ledger =
  log_files_of :: "log_entry log_files"
  summary_file :: summary_file

definition logRequest ::
  "(real \<Rightarrow> real) \<Rightarrow> timestamp \<Rightarrow> string \<Rightarrow> string \<Rightarrow> model_field \<Rightarrow> response_data option
     \<Rightarrow> ledger \<Rightarrow> ledger" where
  "logRequest fl now userId endpoint model responseData st =
     (let entry = logEntry fl now userId endpoint model responseData
      in \<lparr>log_files_of = appendLog entry (log_files_of st),
          summary_file = updateUserSummary fl userId entry (summary_file st)\<rparr>)"

text \<open>
  The time zone of the process: \<open>toLocal\<close> turns a time value into local time,
  \<open>toUTC\<close> turns a local time into a time value. In the zone \<open>utc\<close> both leave the
  time as it is. In New York, around the end of daylight-saving time on 1 November 2026
  (day 20758), local time is four hours behind UTC before 06:00 UTC of that day and five
  hours from then on, and a local time before 02:00 of that day is read as daylight time.
\<close>

record zone =
  toLocal :: "int \<Rightarrow> int"
  toUTC :: "int \<Rightarrow> int"

definition utc :: zone where
  "utc = \<lparr>toLocal = (\<lambda>t. t), toUTC = (\<lambda>l. l)\<rparr>"

definition new_york_2026 :: zone where
  "new_york_2026 =
     \<lparr>toLocal = (\<lambda>t. if t < 20758 * 86400000 + 6 * 3600000 then t - 4 * 3600000
                     else t - 5 * 3600000),
      toUTC = (\<lambda>l. if l < 20758 * 86400000 + 2 * 3600000 then l + 4 * 3600000
                   else l + 5 * 3600000)\<rparr>"

text \<open>
  \<open>const date = new Date(now); date.setDate(date.getDate() - i)\<close>: the same local time
  of day, \<open>i\<close> calendar days earlier, as a time value; and the day of the file name,
  \<open>date.toISOString().split('T')[0]\<close>.
\<close>

definition days_back :: "zone \<Rightarrow> timestamp \<Rightarrow> nat \<Rightarrow> timestamp" where
  "days_back z now i = toUTC z (toLocal z now - int i * 86400000)"

definition file_day :: "zone \<Rightarrow> timestamp \<Rightarrow> nat \<Rightarrow> int" where
  "file_day z now i = day_of (days_back z now i)"

text \<open>The loop over the lines of one file, with the array \<open>logs\<close>.\<close>

fun scan_lines ::
  "(real \<Rightarrow> real) \<Rightarrow> timestamp \<Rightarrow> real \<Rightarrow> 'a log_line list \<Rightarrow> (timestamp \<times> 'a) list
     \<Rightarrow> (timestamp \<times> 'a) list" where
  "scan_lines fl now hours [] logs = logs"
| "scan_lines fl now hours (Unparsable # ls) logs = scan_lines fl now hours ls logs"
| "scan_lines fl now hours (Undated e # ls) logs = scan_lines fl now hours ls logs"
| "scan_lines fl now hours (Dated t e # ls) logs =
     (let hoursDiff = fl (real_of_int (now - t) / (1000 * 60 * 60))
      in if hoursDiff \<le> hours then scan_lines fl now hours ls (logs @ [(t, e)])
         else scan_lines fl now hours ls logs)"

text \<open>The loop \<open>for (let i = 0; i < 3; i++)\<close>.\<close>

function scan_days ::
  "zone \<Rightarrow> (real \<Rightarrow> real) \<Rightarrow> timestamp \<Rightarrow> real \<Rightarrow> 'a log_files \<Rightarrow> nat \<Rightarrow> (timestamp \<times> 'a) list
     \<Rightarrow> (timestamp \<times> 'a) list" where
  "scan_days z fl now hours files i logs =
     (if i < 3 then
        (case files (file_day z now i) of
           Some ls \<Rightarrow> scan_days z fl now hours files (i + 1) (scan_lines fl now hours ls logs)
         | None \<Rightarrow> scan_days z fl now hours files (i + 1) logs)
      else logs)"
  by pat_completeness auto
termination
  by (relation "measure (\<lambda>(z, fl, now, hours, files, i, logs). 3 - i)") auto

declare scan_days.simps [simp del]

text \<open>
  \<open>logs.sort((a, b) => new Date(b.timestamp) - new Date(a.timestamp))\<close>: a stable sort
  by descending time.
\<close>

definition sort_desc :: "(timestamp \<times> 'a) list \<Rightarrow> (timestamp \<times> 'a) list" where
  "sort_desc logs = sort_key (\<lambda>p. - fst p) logs"

definition getRecentLogs ::
  "zone \<Rightarrow> (real \<Rightarrow> real) \<Rightarrow> real \<Rightarrow> timestamp \<Rightarrow> 'a log_files \<Rightarrow> (timestamp \<times> 'a) list" where
  "getRecentLogs z fl hours now files = sort_desc (scan_days z fl now hours files 0 [])"

text \<open>
  The entries that the specification names: those of the files of today and of the two
  days before whose age in hours is at most \<open>hours\<close>.
\<close>

fun dated :: "'a log_line list \<Rightarrow> (timestamp \<times> 'a) list" where
  "dated [] = []"
| "dated (Dated t e # ls) = (t, e) # dated ls"
| "dated (Unparsable # ls) = dated ls"
| "dated (Undated e # ls) = dated ls"

definition file_entries :: "'a log_files \<Rightarrow> int \<Rightarrow> (timestamp \<times> 'a) list" where
  "file_entries files d = (case files d of None \<Rightarrow> [] | Some ls \<Rightarrow> dated ls)"

definition age_hours :: "(real \<Rightarrow> real) \<Rightarrow> timestamp \<Rightarrow> timestamp \<Rightarrow> real" where
  "age_hours fl now t = fl (real_of_int (now - t) / 3600000)"

definition recent :: "(real \<Rightarrow> real) \<Rightarrow> timestamp \<Rightarrow> real \<Rightarrow> timestamp \<times> 'a \<Rightarrow> bool" where
  "recent fl now hours p = (age_hours fl now (fst p) \<le> hours)"

definition window_entries :: "timestamp \<Rightarrow> 'a log_files \<Rightarrow> (timestamp \<times> 'a) list" where
  "window_entries now files =
     file_entries files (day_of now) @ file_entries files (day_of now - 1)
       @ file_entries files (day_of now - 2)"

text \<open>Every dated line lies in the file of its own day, as \<open>appendLog\<close> writes it.\<close>

definition filed_by_day :: "'a log_files \<Rightarrow> bool" where
  "filed_by_day files = (\<forall>d t e. (t, e) \<in> set (file_entries files d) \<longrightarrow> day_of t = d)"

text \<open>
  Stepping back by local calendar days is stepping back by days of 24 hours: the zone
  changes its offset neither in the three days before \<open>now\<close> nor around \<open>now\<close>.
\<close>

definition steady :: "zone \<Rightarrow> timestamp \<Rightarrow> bool" where
  "steady z now =
     (days_back z now 0 = now \<and> days_back z now 1 = now - 86400000
      \<and> days_back z now 2 = now - 2 * 86400000)"

section \<open>Properties\<close>

subsection \<open>String tests\<close>



subsection \<open>Google finish reason\<close>

text \<open>
  Claim C8. For every Google provider response, the unified finish reason is \<open>stop\<close>
  when the finish reason of the first candidate is exactly \<open>STOP\<close>, and \<open>length\<close> for
  every other value, a missing value and a missing candidate included.
\<close>

theorem google_finish_reason_stop_or_length:
  "(first_finishReason r = Some ''STOP'' \<longrightarrow> google_finish_reason r = ''stop'')
   \<and> (first_finishReason r \<noteq> Some ''STOP'' \<longrightarrow> google_finish_reason r = ''length'')
   \<and> first_finishReason r =
       (case candidates r of None \<Rightarrow> None | Some [] \<Rightarrow> None | Some (c # cs) \<Rightarrow> finishReason c)"
  by (simp add: google_finish_reason_def first_finishReason_def)

theorem google_finish_reason_witness:
  "google_finish_reason \<lparr>candidates = Some [\<lparr>finishReason = Some ''STOP''\<rparr>]\<rparr> = ''stop''
   \<and> google_finish_reason \<lparr>candidates = Some [\<lparr>finishReason = Some ''SAFETY''\<rparr>]\<rparr> = ''length''
   \<and> google_finish_reason \<lparr>candidates = Some [\<lparr>finishReason = None\<rparr>]\<rparr> = ''length''
   \<and> google_finish_reason \<lparr>candidates = None\<rparr> = ''length''"
  using google_finish_reason_stop_or_length [of "\<lparr>candidates = Some [\<lparr>finishReason = Some ''STOP''\<rparr>]\<rparr>"]
    google_finish_reason_stop_or_length [of "\<lparr>candidates = Some [\<lparr>finishReason = Some ''SAFETY''\<rparr>]\<rparr>"]
    google_finish_reason_stop_or_length [of "\<lparr>candidates = Some [\<lparr>finishReason = None\<rparr>]\<rparr>"]
    google_finish_reason_stop_or_length [of "\<lparr>candidates = None\<rparr>"]
  by simp

subsection \<open>The log entry\<close>

lemma logEntry_sel:
  "e_timestamp (logEntry fl now userId endpoint model rd) = now"
  "e_userId (logEntry fl now userId endpoint model rd) = userId"
  "e_endpoint (logEntry fl now userId endpoint model rd) = endpoint"
  "e_provider (logEntry fl now userId endpoint model rd) = detectProvider endpoint model"
  "e_model (logEntry fl now userId endpoint model rd) = model"
  "e_tokens (logEntry fl now userId endpoint model rd) =
     \<lparr>tok_prompt = usage_or_zero prompt_tokens rd,
      tok_completion = usage_or_zero completion_tokens rd,
      tok_total = usage_or_zero total_tokens rd\<rparr>"
  "e_cost (logEntry fl now userId endpoint model rd) =
     calculateCost fl model (response_usage rd) (Some (detectProvider endpoint model))"
  "e_success (logEntry fl now userId endpoint model rd) =
     (case rd of None \<Rightarrow> False | Some r \<Rightarrow> rd_error r = None)"
  "e_error (logEntry fl now userId endpoint model rd) = response_error_message rd"
  by (simp_all add: logEntry_def Let_def)

lemma num_arith:
  "js_mul fl (Num x) (Num y) = Num (fl (x * y))"
  "js_add fl (Num x) (Num y) = Num (fl (x + y))"
  "js_mul fl a NaN = NaN"
  "js_add fl NaN b = NaN"
  by (simp_all add: js_mul_def js_add_def split: jsnum.splits)

lemma calculateCost_cases:
  "calculateCost fl model None provider = Num 0"
  "modelPricing model p = Rates r \<Longrightarrow> calculateCost fl model (Some u) (Some p) = Num (cost_at fl r u)"
  "modelPricing model p = Member \<Longrightarrow> calculateCost fl model (Some u) (Some p) = NaN"
  by (simp_all add: calculateCost_def Let_def rate_of_def num_arith cost_at_def)





lemma usage_or_zero_simps:
  "response_usage rd = None \<Longrightarrow> usage_or_zero f rd = 0"
  "response_usage rd = Some u \<Longrightarrow> usage_or_zero f rd = f u"
  by (simp_all add: usage_or_zero_def or_int_def)

text \<open>
  Claim C10. The success flag of a log entry is true exactly when the payload is present
  and carries no error; when the payload carries an error with a non-empty message, the
  entry is a failure and records that message, and in every other case the error of the
  entry is null. The HTTP status is no input of the recorder.
\<close>

theorem logEntry_success_and_error:
  "(e_success (logEntry fl now userId endpoint model rd) \<longleftrightarrow> (\<exists>r. rd = Some r \<and> rd_error r = None))
   \<and> (\<forall>r ev m. rd = Some r \<and> rd_error r = Some ev \<and> ev_message ev = Some m \<and> m \<noteq> []
        \<longrightarrow> \<not> e_success (logEntry fl now userId endpoint model rd)
            \<and> e_error (logEntry fl now userId endpoint model rd) = Some m)
   \<and> (\<not> (\<exists>r ev m. rd = Some r \<and> rd_error r = Some ev \<and> ev_message ev = Some m \<and> m \<noteq> [])
        \<longrightarrow> e_error (logEntry fl now userId endpoint model rd) = None)"
  by (auto simp: logEntry_sel response_error_message_def split: option.splits)

theorem logEntry_success_witness:
  "\<not> e_success (logEntry (\<lambda>x. x) 0 ''u1'' ''/chat/completions'' (Model ''gpt-4o'')
        (Some \<lparr>rd_usage = None, rd_error = Some \<lparr>ev_message = Some ''Rate limit reached''\<rparr>\<rparr>))
   \<and> e_error (logEntry (\<lambda>x. x) 0 ''u1'' ''/chat/completions'' (Model ''gpt-4o'')
        (Some \<lparr>rd_usage = None, rd_error = Some \<lparr>ev_message = Some ''Rate limit reached''\<rparr>\<rparr>))
       = Some ''Rate limit reached''
   \<and> e_success (logEntry (\<lambda>x. x) 0 ''u1'' ''/chat/completions'' (Model ''gpt-4o'')
        (Some \<lparr>rd_usage = None, rd_error = None\<rparr>))
   \<and> e_error (logEntry (\<lambda>x. x) 0 ''u1'' ''/chat/completions'' (Model ''gpt-4o'')
        (Some \<lparr>rd_usage = None, rd_error = None\<rparr>)) = None
   \<and> \<not> e_success (logEntry (\<lambda>x. x) 0 ''u1'' ''/chat/completions'' (Model ''gpt-4o'') None)"
  using logEntry_success_and_error [of "\<lambda>x. x" 0 "''u1''" "''/chat/completions''" "Model ''gpt-4o''"
      "Some \<lparr>rd_usage = None, rd_error = Some \<lparr>ev_message = Some ''Rate limit reached''\<rparr>\<rparr>"]
    logEntry_success_and_error [of "\<lambda>x. x" 0 "''u1''" "''/chat/completions''" "Model ''gpt-4o''"
      "Some \<lparr>rd_usage = None, rd_error = None\<rparr>"]
    logEntry_success_and_error [of "\<lambda>x. x" 0 "''u1''" "''/chat/completions''" "Model ''gpt-4o''" None]
  by simp

text \<open>
  Claim C6 says that the total token count of every entry is the sum of its prompt and
  completion counts. The recorder copies the three counts of the payload one by one, so
  a payload whose reported total differs from the sum gives an entry that differs too.
\<close>

theorem logEntry_total_not_sum_counterexample:
  "tok_total (e_tokens (logEntry (\<lambda>x. x) 0 ''u1'' ''/google/generateContent'' (Model ''gemini-2.5-pro'')
      (Some \<lparr>rd_usage = Some \<lparr>prompt_tokens = 10, completion_tokens = 5, total_tokens = 20\<rparr>,
             rd_error = None\<rparr>)))
   \<noteq> tok_prompt (e_tokens (logEntry (\<lambda>x. x) 0 ''u1'' ''/google/generateContent'' (Model ''gemini-2.5-pro'')
      (Some \<lparr>rd_usage = Some \<lparr>prompt_tokens = 10, completion_tokens = 5, total_tokens = 20\<rparr>,
             rd_error = None\<rparr>)))
     + tok_completion (e_tokens (logEntry (\<lambda>x. x) 0 ''u1'' ''/google/generateContent'' (Model ''gemini-2.5-pro'')
      (Some \<lparr>rd_usage = Some \<lparr>prompt_tokens = 10, completion_tokens = 5, total_tokens = 20\<rparr>,
             rd_error = None\<rparr>)))"
  by (simp add: logEntry_sel usage_or_zero_def response_usage_def or_int_def)

text \<open>
  Claim C6, amended. The three token counts of an entry are the counts of the payload's
  usage, and zero when the payload or its usage is missing. The total of the entry is the
  sum of the other two exactly when the payload's usage has that property; it has it when
  the usage is missing and when it comes from the Anthropic response translation.
\<close>

theorem logEntry_tokens_copied:
  "(response_usage rd = None \<longrightarrow>
      e_tokens (logEntry fl now userId endpoint model rd)
        = \<lparr>tok_prompt = 0, tok_completion = 0, tok_total = 0\<rparr>)
   \<and> (\<forall>u. response_usage rd = Some u \<longrightarrow>
      e_tokens (logEntry fl now userId endpoint model rd)
        = \<lparr>tok_prompt = prompt_tokens u, tok_completion = completion_tokens u,
           tok_total = total_tokens u\<rparr>)
   \<and> ((\<forall>u. response_usage rd = Some u \<longrightarrow> total_tokens u = prompt_tokens u + completion_tokens u)
      \<longleftrightarrow> tok_total (e_tokens (logEntry fl now userId endpoint model rd))
          = tok_prompt (e_tokens (logEntry fl now userId endpoint model rd))
            + tok_completion (e_tokens (logEntry fl now userId endpoint model rd)))
   \<and> (\<forall>au. response_usage rd = Some (anthropic_response_usage au) \<longrightarrow>
        tok_total (e_tokens (logEntry fl now userId endpoint model rd))
          = tok_prompt (e_tokens (logEntry fl now userId endpoint model rd))
            + tok_completion (e_tokens (logEntry fl now userId endpoint model rd)))"
  by (cases "response_usage rd")
     (auto simp: logEntry_sel usage_or_zero_simps anthropic_response_usage_def)

theorem logEntry_tokens_witness:
  "e_tokens (logEntry (\<lambda>x. x) 0 ''u1'' ''/chat/completions'' (Model ''gpt-4o'')
      (Some \<lparr>rd_usage = Some \<lparr>prompt_tokens = 10, completion_tokens = 5, total_tokens = 15\<rparr>,
             rd_error = None\<rparr>))
     = \<lparr>tok_prompt = 10, tok_completion = 5, tok_total = 15\<rparr>
   \<and> e_tokens (logEntry (\<lambda>x. x) 0 ''u1'' ''/chat/completions'' (Model ''gpt-4o'') None)
     = \<lparr>tok_prompt = 0, tok_completion = 0, tok_total = 0\<rparr>
   \<and> tok_total (e_tokens (logEntry (\<lambda>x. x) 0 ''u1'' ''/anthropic/messages'' Undefined
      (Some \<lparr>rd_usage = Some (anthropic_response_usage
               (Some \<lparr>input_tokens = Some 10, output_tokens = Some 5\<rparr>)),
             rd_error = None\<rparr>))) = 15"
  using logEntry_tokens_copied [of "Some \<lparr>rd_usage = Some \<lparr>prompt_tokens = 10, completion_tokens = 5, total_tokens = 15\<rparr>,
             rd_error = None\<rparr>" "\<lambda>x. x" 0 "''u1''" "''/chat/completions''" "Model ''gpt-4o''"]
    logEntry_tokens_copied [of None "\<lambda>x. x" 0 "''u1''" "''/chat/completions''" "Model ''gpt-4o''"]
    logEntry_tokens_copied [of "Some \<lparr>rd_usage = Some (anthropic_response_usage
               (Some \<lparr>input_tokens = Some 10, output_tokens = Some 5\<rparr>)),
             rd_error = None\<rparr>" "\<lambda>x. x" 0 "''u1''" "''/anthropic/messages''" Undefined]
  by (simp add: response_usage_def anthropic_response_usage_def usage_field_def or_int_def)


subsection \<open>Cost\<close>

lemma calculateCost_resolution:
  "calculateCost fl model None provider = Num 0
   \<and> calculateCost fl model (Some u) None = calculateCost fl model (Some u) (Some ''openai'')
   \<and> calculateCost fl model (Some u) (Some p) =
       (case js_get (map_of pricing) (property_key model) of
          Own r \<Rightarrow> Num (cost_at fl r u)
        | Inherited \<Rightarrow> NaN
        | Absent \<Rightarrow>
            (case js_get (map_of defaultPricing) p of
               Own r \<Rightarrow> Num (cost_at fl r u)
             | Inherited \<Rightarrow> NaN
             | Absent \<Rightarrow> Num (cost_at fl \<lparr>rate_input = 5, rate_output = 15\<rparr> u)))"
proof -
  have o: "js_get (map_of defaultPricing) ''openai'' = Own \<lparr>rate_input = 5, rate_output = 15\<rparr>"
    by (simp add: js_get_def defaultPricing_def)
  have "calculateCost fl model (Some u) (Some p) =
       (case js_get (map_of pricing) (property_key model) of
          Own r \<Rightarrow> Num (cost_at fl r u)
        | Inherited \<Rightarrow> NaN
        | Absent \<Rightarrow>
            (case js_get (map_of defaultPricing) p of
               Own r \<Rightarrow> Num (cost_at fl r u)
             | Inherited \<Rightarrow> NaN
             | Absent \<Rightarrow> Num (cost_at fl \<lparr>rate_input = 5, rate_output = 15\<rparr> u)))"
    by (cases "js_get (map_of pricing) (property_key model)";
        cases "js_get (map_of defaultPricing) p")
       (simp_all add: calculateCost_cases modelPricing_def o)
  then show ?thesis
    by (simp add: calculateCost_cases) (simp add: calculateCost_def)
qed

text \<open>
  Claim C3 says that the cost of a model without an entry in the pricing table is the
  formula at the default rates of the provider, for every model. The model
  \<open>constructor\<close> has no entry in the table and the provider \<open>anthropic\<close> has default
  rates, yet the cost is \<open>NaN\<close>: \<open>pricing[model]\<close> is then the inherited function
  \<open>Object\<close>, which is truthy and ends the \<open>||\<close> chain, and which has neither
  \<open>input\<close> nor \<open>output\<close>.
\<close>

theorem calculateCost_inherited_member:
  "map_of pricing ''constructor'' = None
   \<and> map_of defaultPricing ''anthropic'' = Some \<lparr>rate_input = 3, rate_output = 15\<rparr>
   \<and> calculateCost fl (Model ''constructor'')
        (Some \<lparr>prompt_tokens = 1000000, completion_tokens = 2000000, total_tokens = 3000000\<rparr>)
        (Some ''anthropic'') = NaN
   \<and> calculateCost fl (Model ''constructor'')
        (Some \<lparr>prompt_tokens = 1000000, completion_tokens = 2000000, total_tokens = 3000000\<rparr>)
        (Some ''anthropic'')
       \<noteq> Num (cost_at fl \<lparr>rate_input = 3, rate_output = 15\<rparr>
            \<lparr>prompt_tokens = 1000000, completion_tokens = 2000000, total_tokens = 3000000\<rparr>)"
proof -
  have m: "modelPricing (Model ''constructor'') ''anthropic'' = Member"
    by (simp add: modelPricing_def js_get_def pricing_def property_key_def
        object_prototype_members_def)
  show ?thesis
    by (simp add: calculateCost_cases(3) [OF m]) (simp add: pricing_def defaultPricing_def)
qed

subsection \<open>Unified dispatch\<close>

lemma toLowerCase_Nil: "toLowerCase [] = []"
  by (simp add: toLowerCase_def)

lemma toLowerCase_openai: "toLowerCase ''openai'' = ''openai''"
  by code_simp

text \<open>
  Claim C7 says that every provider string outside the alias table is answered with an
  invalid-provider error. The empty string is outside the table and is dispatched to
  OpenAI, because the handler replaces a falsy provider by \<open>openai\<close>.
\<close>

theorem unified_chat_empty_provider_counterexample:
  "toLowerCase [] \<noteq> ''openai'' \<and> toLowerCase [] \<noteq> ''anthropic'' \<and> toLowerCase [] \<noteq> ''claude''
   \<and> toLowerCase [] \<noteq> ''google'' \<and> toLowerCase [] \<noteq> ''gemini''
   \<and> unified_chat \<lparr>body_provider = Some [], body_model = None, body_max_tokens = None,
        body_messages = None, body_system = None\<rparr> = Handle ''/api/chat/completions''"
  by (simp add: unified_chat_def or_string_def toLowerCase_Nil toLowerCase_openai)

text \<open>
  Claim C7, amended. A missing or empty provider is dispatched to OpenAI. Every non-empty
  provider string is lower-cased and compared with the aliases \<open>openai\<close>;
  \<open>anthropic\<close>, \<open>claude\<close>; \<open>google\<close>, \<open>gemini\<close>; a match hands the request to the
  handler of that provider, and any other string is answered with status 400 and a
  message that names the string as given, with no handler, hence no upstream call.
\<close>

theorem unified_chat_dispatch:
  "(body_provider body = None \<or> body_provider body = Some []
      \<longrightarrow> unified_chat body = Handle ''/api/chat/completions'')
   \<and> (\<forall>p. body_provider body = Some p \<and> p \<noteq> [] \<longrightarrow>
        unified_chat body =
          (if toLowerCase p = ''openai'' then Handle ''/api/chat/completions''
           else if toLowerCase p = ''anthropic'' \<or> toLowerCase p = ''claude''
             then Handle ''/api/anthropic/messages''
           else if toLowerCase p = ''google'' \<or> toLowerCase p = ''gemini''
             then Handle ''/api/google/generateContent''
           else Respond 400
             \<lparr>err_message = ''Unknown provider: '' @ p, err_type = ''invalid_request''\<rparr>))"
  by (auto simp: unified_chat_def or_string_def Let_def toLowerCase_openai)

theorem unified_chat_witness:
  "unified_chat \<lparr>body_provider = Some ''foo'', body_model = None, body_max_tokens = None,
        body_messages = None, body_system = None\<rparr>
     = Respond 400 \<lparr>err_message = ''Unknown provider: foo'', err_type = ''invalid_request''\<rparr>
   \<and> unified_chat \<lparr>body_provider = Some ''Claude'', body_model = None, body_max_tokens = None,
        body_messages = None, body_system = None\<rparr> = Handle ''/api/anthropic/messages''
   \<and> unified_chat \<lparr>body_provider = None, body_model = None, body_max_tokens = None,
        body_messages = None, body_system = None\<rparr> = Handle ''/api/chat/completions''"
proof -
  have l1: "toLowerCase ''foo'' = ''foo''" by code_simp
  have l2: "toLowerCase ''Claude'' = ''claude''" by code_simp
  show ?thesis
    using unified_chat_dispatch [of "\<lparr>body_provider = Some ''foo'', body_model = None, body_max_tokens = None,
        body_messages = None, body_system = None\<rparr>"]
     unified_chat_dispatch [of "\<lparr>body_provider = Some ''Claude'', body_model = None, body_max_tokens = None,
        body_messages = None, body_system = None\<rparr>"]
     unified_chat_dispatch [of "\<lparr>body_provider = None, body_model = None, body_max_tokens = None,
        body_messages = None, body_system = None\<rparr>"]
    by (simp add: l1 l2)
qed


subsection \<open>Anthropic request\<close>

text \<open>
  Claim C1 says that the Anthropic translation takes the system-role messages out of the
  message list and sends their contents as the system field. For a body with a system
  message, a user message and no \<open>system\<close> property, the posted list still holds the
  system message and the posted object has no system field.
\<close>

theorem anthropicRequest_system_counterexample:
  "ar_messages (anthropicRequest
      \<lparr>body_provider = Some ''anthropic'', body_model = None, body_max_tokens = None,
       body_messages = Some [\<lparr>role = ''system'', content = StringContent ''Be terse.''\<rparr>,
                             \<lparr>role = ''user'', content = StringContent ''Hi''\<rparr>],
       body_system = None\<rparr>)
     = Some [\<lparr>role = ''system'', content = StringContent ''Be terse.''\<rparr>,
             \<lparr>role = ''user'', content = StringContent ''Hi''\<rparr>]
   \<and> spec_anthropic_messages [\<lparr>role = ''system'', content = StringContent ''Be terse.''\<rparr>,
                              \<lparr>role = ''user'', content = StringContent ''Hi''\<rparr>]
     = [\<lparr>role = ''user'', content = StringContent ''Hi''\<rparr>]
   \<and> ar_system (anthropicRequest
      \<lparr>body_provider = Some ''anthropic'', body_model = None, body_max_tokens = None,
       body_messages = Some [\<lparr>role = ''system'', content = StringContent ''Be terse.''\<rparr>,
                             \<lparr>role = ''user'', content = StringContent ''Hi''\<rparr>],
       body_system = None\<rparr>) = None
   \<and> spec_anthropic_system [\<lparr>role = ''system'', content = StringContent ''Be terse.''\<rparr>,
                            \<lparr>role = ''user'', content = StringContent ''Hi''\<rparr>]
     = Some ''Be terse.''"
  by (simp add: anthropicRequest_def spec_anthropic_messages_def spec_anthropic_system_def
      content_text_def)

text \<open>
  Claim C1, amended. The Anthropic translation posts the message list of the body as it
  is, system-role messages included, and posts as system field the \<open>system\<close> property of
  the body, which is absent when the body has none; the model defaults to
  \<open>claude-sonnet-4-20250514\<close> and the token limit to 4096.
\<close>

theorem anthropicRequest_passes_through:
  "ar_messages (anthropicRequest body) = body_messages body
   \<and> ar_system (anthropicRequest body) = body_system body
   \<and> ar_model (anthropicRequest body) = or_string (body_model body) ''claude-sonnet-4-20250514''
   \<and> ar_max_tokens (anthropicRequest body) = or_int (body_max_tokens body) 4096"
  by (simp add: anthropicRequest_def)

subsection \<open>Gemini request\<close>

lemma convert_items_image:
  "convert_items r n (ImageUrlItem u # items) sp parts =
     convert_items r n items sp (parts @ image_part u)"
  by (auto simp: image_part_def match_data_url_def split: option.splits)

lemma convert_items_plain:
  "\<not> (r = ''user'' \<and> truthy sp \<and> n = 0) \<Longrightarrow>
     convert_items r n items sp parts = (parts @ plain_items items, sp)"
proof (induction items arbitrary: parts)
  case Nil
  then show ?case by simp
next
  case (Cons i items)
  then show ?case by (cases i) (auto simp add: convert_items_image simp del: convert_items.simps(3))
qed

lemma not_truthy_empty: "\<not> truthy (StringContent [])"
  by (simp add: truthy_def)

lemma convert_items_merged:
  "r = ''user'' \<Longrightarrow> truthy sp \<Longrightarrow>
     fst (convert_items r 0 items sp parts) = parts @ merged_items (to_string sp) items"
proof (induction items arbitrary: parts)
  case Nil
  then show ?case by simp
next
  case (Cons i items)
  then show ?case
    by (cases i)
       (simp_all add: convert_items_image convert_items_plain not_truthy_empty with_system_def
          del: convert_items.simps(3))
qed

lemma message_parts_plain:
  "\<not> (r = ''user'' \<and> truthy sp \<and> n = 0) \<Longrightarrow> message_parts r n c sp = (plain_parts c, sp)"
  by (cases c) (auto simp: message_parts_def plain_parts_def convert_items_plain)

lemma message_parts_merged:
  "r = ''user'' \<Longrightarrow> truthy sp \<Longrightarrow>
     fst (message_parts r 0 c sp) = merged_parts (to_string sp) c"
  by (cases c) (simp_all add: message_parts_def merged_parts_def convert_items_merged with_system_def)

lemma gemini_loop_later:
  "contents \<noteq> [] \<Longrightarrow>
     gemini_loop ms sp contents = contents @ map plain_entry (non_system ms)"
proof (induction ms arbitrary: sp contents)
  case Nil
  then show ?case by (simp add: non_system_def)
next
  case (Cons m ms)
  show ?case
  proof (cases "role m = ''system''")
    case True
    then show ?thesis using Cons by (simp add: non_system_def)
  next
    case False
    let ?r = "if role m = ''assistant'' then ''model'' else ''user''"
    have n: "\<not> (?r = ''user'' \<and> truthy sp \<and> length contents = 0)"
      using Cons.prems by simp
    have mp: "message_parts ?r (length contents) (content m) sp = (plain_parts (content m), sp)"
      by (rule message_parts_plain [OF n])
    have "gemini_loop (m # ms) sp contents =
        gemini_loop ms sp (contents @ [\<lparr>g_role = ?r, g_parts = plain_parts (content m)\<rparr>])"
      using False by (simp add: mp Let_def)
    also have "\<dots> = (contents @ [\<lparr>g_role = ?r, g_parts = plain_parts (content m)\<rparr>])
        @ map plain_entry (non_system ms)"
      by (rule Cons.IH) simp
    finally show ?thesis
      using False by (simp add: non_system_def plain_entry_def gemini_role_def)
  qed
qed

lemma gemini_loop_first:
  "gemini_loop ms sp [] =
     (case non_system ms of
        [] \<Rightarrow> []
      | m # rest \<Rightarrow>
          \<lparr>g_role = gemini_role m,
           g_parts = fst (message_parts (gemini_role m) 0 (content m) (leading_system sp ms))\<rparr>
            # map plain_entry rest)"
proof (induction ms arbitrary: sp)
  case Nil
  then show ?case by (simp add: non_system_def)
next
  case (Cons m ms)
  show ?case
  proof (cases "role m = ''system''")
    case True
    then show ?thesis using Cons.IH [of "content m"]
      by (simp add: non_system_def split: list.splits)
  next
    case False
    then show ?thesis
      by (simp add: non_system_def Let_def gemini_loop_later gemini_role_def)
  qed
qed

lemma transform_cases:
  "transformMessagesToGeminiFormat (Some ms) =
     (case non_system ms of
        [] \<Rightarrow> []
      | m # rest \<Rightarrow>
          (if role m \<noteq> ''assistant'' \<and> truthy (system_prompt_of ms)
           then \<lparr>g_role = ''user'',
                 g_parts = merged_parts (to_string (system_prompt_of ms)) (content m)\<rparr>
           else plain_entry m) # map plain_entry rest)"
proof (cases "non_system ms")
  case Nil
  then show ?thesis
    by (simp add: transformMessagesToGeminiFormat_def gemini_loop_first)
next
  case (Cons m rest)
  show ?thesis
  proof (cases "role m \<noteq> ''assistant'' \<and> truthy (system_prompt_of ms)")
    case True
    then have "fst (message_parts (gemini_role m) 0 (content m) (system_prompt_of ms))
        = merged_parts (to_string (system_prompt_of ms)) (content m)"
      by (simp add: gemini_role_def message_parts_merged)
    then show ?thesis using Cons True
      by (simp add: transformMessagesToGeminiFormat_def gemini_loop_first system_prompt_of_def
          gemini_role_def)
  next
    case False
    then have "\<not> (gemini_role m = ''user'' \<and> truthy (system_prompt_of ms) \<and> (0::nat) = 0)"
      by (auto simp: gemini_role_def)
    then have "message_parts (gemini_role m) 0 (content m) (system_prompt_of ms)
        = (plain_parts (content m), system_prompt_of ms)"
      by (rule message_parts_plain)
    then show ?thesis using Cons False
      by (auto simp add: transformMessagesToGeminiFormat_def gemini_loop_first system_prompt_of_def
          plain_entry_def)
  qed
qed


text \<open>
  Claim C2 says that for every message list with a system message and a user message the
  system prompt is merged into the first text part of the first user-role message. The
  loop merges it only into the first entry of the translated list, and only a prompt that
  it has already met: a system message after the first user message, and a system message
  whose next other message is an assistant message, are dropped without a trace.
\<close>

theorem transformMessagesToGeminiFormat_counterexample:
  "transformMessagesToGeminiFormat
        (Some [\<lparr>role = ''user'', content = StringContent ''Hi''\<rparr>,
               \<lparr>role = ''system'', content = StringContent ''Be terse.''\<rparr>])
       = [\<lparr>g_role = ''user'', g_parts = [Text ''Hi'']\<rparr>]
   \<and> [\<lparr>g_role = ''user'', g_parts = [Text ''Hi'']\<rparr>]
       \<noteq> [\<lparr>g_role = ''user'', g_parts = [Text (''Be terse.'' @ [CHR 0x0A, CHR 0x0A] @ ''Hi'')]\<rparr>]
   \<and> transformMessagesToGeminiFormat
        (Some [\<lparr>role = ''system'', content = StringContent ''Be terse.''\<rparr>,
               \<lparr>role = ''assistant'', content = StringContent ''Hello.''\<rparr>,
               \<lparr>role = ''user'', content = StringContent ''Hi''\<rparr>])
       = [\<lparr>g_role = ''model'', g_parts = [Text ''Hello.'']\<rparr>,
          \<lparr>g_role = ''user'', g_parts = [Text ''Hi'']\<rparr>]"
  by (simp add: transformMessagesToGeminiFormat_def message_parts_def truthy_def
        with_system_def to_string_def)

text \<open>
  Claim C2, amended. The translated list has one entry for each message that is not a
  system message, with role \<open>user\<close> or \<open>model\<close>, and none for a system message. When the
  first of those messages is not an assistant message and the last system message ahead of
  it is non-empty, its entry has role \<open>user\<close> and carries that system prompt, followed by
  a blank line, in front of its first text part and nowhere else, and every later entry is
  the plain translation of its message. In every other case all entries are plain
  translations and the system prompt appears nowhere. A system message \<open>Be terse.\<close>
  followed by one user message \<open>Hi\<close> gives the single user entry with the text
  \<open>Be terse.\<close>, blank line, \<open>Hi\<close>.
\<close>

theorem transformMessagesToGeminiFormat_merge:
  "transformMessagesToGeminiFormat None = []
   \<and> map g_role (transformMessagesToGeminiFormat (Some ms)) = map gemini_role (non_system ms)
   \<and> (\<forall>e \<in> set (transformMessagesToGeminiFormat (Some ms)).
         g_role e = ''user'' \<or> g_role e = ''model'')
   \<and> (\<forall>m rest. non_system ms = m # rest \<and> role m \<noteq> ''assistant'' \<and> truthy (system_prompt_of ms)
        \<longrightarrow> transformMessagesToGeminiFormat (Some ms) =
              \<lparr>g_role = ''user'',
               g_parts = merged_parts (to_string (system_prompt_of ms)) (content m)\<rparr>
                # map plain_entry rest)
   \<and> ((\<forall>m rest. non_system ms = m # rest \<longrightarrow>
          role m = ''assistant'' \<or> \<not> truthy (system_prompt_of ms))
        \<longrightarrow> transformMessagesToGeminiFormat (Some ms) = map plain_entry (non_system ms))
   \<and> transformMessagesToGeminiFormat
        (Some [\<lparr>role = ''system'', content = StringContent ''Be terse.''\<rparr>,
               \<lparr>role = ''user'', content = StringContent ''Hi''\<rparr>])
       = [\<lparr>g_role = ''user'', g_parts = [Text (''Be terse.'' @ [CHR 0x0A, CHR 0x0A] @ ''Hi'')]\<rparr>]"
proof -
  have a: "transformMessagesToGeminiFormat None = []"
    by (simp add: transformMessagesToGeminiFormat_def)
  have pe: "g_role (plain_entry m) = gemini_role m" for m
    by (simp add: plain_entry_def)
  have b: "map g_role (transformMessagesToGeminiFormat (Some ms)) = map gemini_role (non_system ms)"
    by (cases "non_system ms") (auto simp: transform_cases pe gemini_role_def)
  have "\<forall>r \<in> set (map gemini_role (non_system ms)). r = ''user'' \<or> r = ''model''"
    by (auto simp: gemini_role_def)
  then have c: "\<forall>e \<in> set (transformMessagesToGeminiFormat (Some ms)).
         g_role e = ''user'' \<or> g_role e = ''model''"
    unfolding b [symmetric] by simp
  have d: "\<forall>m rest. non_system ms = m # rest \<and> role m \<noteq> ''assistant'' \<and> truthy (system_prompt_of ms)
        \<longrightarrow> transformMessagesToGeminiFormat (Some ms) =
              \<lparr>g_role = ''user'',
               g_parts = merged_parts (to_string (system_prompt_of ms)) (content m)\<rparr>
                # map plain_entry rest"
    by (simp add: transform_cases)
  have e: "(\<forall>m rest. non_system ms = m # rest \<longrightarrow>
          role m = ''assistant'' \<or> \<not> truthy (system_prompt_of ms))
        \<longrightarrow> transformMessagesToGeminiFormat (Some ms) = map plain_entry (non_system ms)"
    by (cases "non_system ms") (auto simp: transform_cases)
  have f: "transformMessagesToGeminiFormat
        (Some [\<lparr>role = ''system'', content = StringContent ''Be terse.''\<rparr>,
               \<lparr>role = ''user'', content = StringContent ''Hi''\<rparr>])
       = [\<lparr>g_role = ''user'', g_parts = [Text (''Be terse.'' @ [CHR 0x0A, CHR 0x0A] @ ''Hi'')]\<rparr>]"
    by (simp add: transformMessagesToGeminiFormat_def message_parts_def truthy_def
        with_system_def to_string_def)
  from a b c d e f show ?thesis by blast
qed

theorem transformMessagesToGeminiFormat_witness:
  "transformMessagesToGeminiFormat
      (Some [\<lparr>role = ''system'', content = StringContent ''Be terse.''\<rparr>,
             \<lparr>role = ''user'', content = ArrayContent
                [ImageUrlItem ''data:image/png;base64,AAAA'', TextItem ''Hi'', TextItem ''there'']\<rparr>,
             \<lparr>role = ''assistant'', content = StringContent ''Hello.''\<rparr>,
             \<lparr>role = ''user'', content = StringContent ''Bye''\<rparr>])
    = [\<lparr>g_role = ''user'', g_parts = [InlineData ''image/png'' ''AAAA'',
           Text (''Be terse.'' @ [CHR 0x0A, CHR 0x0A] @ ''Hi''), Text ''there'']\<rparr>,
       \<lparr>g_role = ''model'', g_parts = [Text ''Hello.'']\<rparr>,
       \<lparr>g_role = ''user'', g_parts = [Text ''Bye'']\<rparr>]
   \<and> transformMessagesToGeminiFormat
      (Some [\<lparr>role = ''assistant'', content = StringContent ''Hello.''\<rparr>,
             \<lparr>role = ''user'', content = StringContent ''Bye''\<rparr>])
    = [\<lparr>g_role = ''model'', g_parts = [Text ''Hello.'']\<rparr>,
       \<lparr>g_role = ''user'', g_parts = [Text ''Bye'']\<rparr>]"
  using transformMessagesToGeminiFormat_merge [of "[\<lparr>role = ''system'', content = StringContent ''Be terse.''\<rparr>,
             \<lparr>role = ''user'', content = ArrayContent
                [ImageUrlItem ''data:image/png;base64,AAAA'', TextItem ''Hi'', TextItem ''there'']\<rparr>,
             \<lparr>role = ''assistant'', content = StringContent ''Hello.''\<rparr>,
             \<lparr>role = ''user'', content = StringContent ''Bye''\<rparr>]"]
    transformMessagesToGeminiFormat_merge [of "[\<lparr>role = ''assistant'', content = StringContent ''Hello.''\<rparr>,
             \<lparr>role = ''user'', content = StringContent ''Bye''\<rparr>]"]
  by (simp add: non_system_def system_prompt_of_def truthy_def to_string_def merged_parts_def
      plain_entry_def plain_parts_def gemini_role_def image_part_def match_data_url_def
      line_terminator_def)


subsection \<open>User summaries\<close>

lemma updateUserSummary_inherited:
  "userId \<in> set object_prototype_members \<Longrightarrow>
     updateUserSummary fl userId entry Unreadable = Unreadable"
  by (simp add: updateUserSummary_def js_get_def)

lemma update_all_inherited:
  "userId \<in> set object_prototype_members \<Longrightarrow> update_all fl userId entries Unreadable = Unreadable"
  by (induction entries) (simp_all add: updateUserSummary_inherited)

text \<open>
  Claim C4 says that N updates for an unseen user leave a summary with \<open>totalRequests\<close>
  N, for every user. For the user id \<open>constructor\<close> and no summary file, no update
  writes anything, however many there are: \<open>summaries[userId]\<close> is the inherited
  function \<open>Object\<close>, so no summary is created, the update of its missing
  \<open>endpointCounts\<close> throws, and the error is caught before the file is written.
\<close>

theorem update_all_inherited_user_id:
  "update_all fl ''constructor'' entries Unreadable = Unreadable
   \<and> stored_summary ''constructor'' (update_all fl ''constructor'' entries Unreadable) = None
   \<and> summary_file
        (logRequest fl now ''constructor'' endpoint model rd
           \<lparr>log_files_of = files, summary_file = Unreadable\<rparr>) = Unreadable"
proof -
  have c: "''constructor'' \<in> set object_prototype_members"
    by (simp add: object_prototype_members_def)
  show ?thesis
    by (simp add: update_all_inherited [OF c] updateUserSummary_inherited [OF c]
        stored_summary_def logRequest_def Let_def)
qed

text \<open>
  For a user id that names no member of \<open>Object.prototype\<close>, an object document and
  counter keys that name no member either, the updates add up: the totals are the sums
  that \<open>+=\<close> computes from left to right in doubles.
\<close>

lemma updateUserSummary_seen:
  assumes "stored_summary userId summaryFile = Some s"
  shows "stored_summary userId (updateUserSummary fl userId entry summaryFile)
       = Some (apply_entry fl s entry)"
proof -
  from assms obtain kind m where f: "summaryFile = Document kind m" and m: "m userId = Some s"
    by (cases summaryFile) (auto simp: stored_summary_def)
  show ?thesis
    by (cases kind) (simp_all add: f m stored_summary_def updateUserSummary_def js_get_def)
qed

lemma updateUserSummary_unseen:
  assumes "userId \<notin> set object_prototype_members"
    and "summaryFile = Unreadable \<or> (\<exists>m. summaryFile = Document ObjectDoc m \<and> m userId = None)"
  shows "stored_summary userId (updateUserSummary fl userId entry summaryFile)
       = Some (apply_entry fl (fresh_summary entry) entry)"
  using assms by (auto simp: stored_summary_def updateUserSummary_def js_get_def)

lemma update_all_seen:
  "stored_summary userId summaryFile = Some s \<Longrightarrow>
     stored_summary userId (update_all fl userId entries summaryFile)
       = Some (foldl (apply_entry fl) s entries)"
proof (induction entries arbitrary: summaryFile s)
  case Nil
  then show ?case by simp
next
  case (Cons e es)
  from Cons.prems
  have "stored_summary userId (updateUserSummary fl userId e summaryFile)
      = Some (apply_entry fl s e)"
    by (rule updateUserSummary_seen)
  then show ?case using Cons.IH by simp
qed

lemma foldl_apply_entry_totals:
  "totalRequests (foldl (apply_entry fl) s es) = totalRequests s + length es"
  "totalTokens (foldl (apply_entry fl) s es)
     = foldl (\<lambda>a e. fl (a + real_of_int (tok_total (e_tokens e)))) (totalTokens s) es"
  "totalCost (foldl (apply_entry fl) s es)
     = foldl (\<lambda>a e. printed_number (js_add fl (stored_number a) (e_cost e))) (totalCost s) es"
  "firstSeen (foldl (apply_entry fl) s es) = firstSeen s"
  by (induction es arbitrary: s; simp add: apply_entry_def)+

lemma foldl_apply_entry_lastSeen:
  "es \<noteq> [] \<Longrightarrow> lastSeen (foldl (apply_entry fl) s es) = Some (e_timestamp (last es))"
proof (induction es arbitrary: s)
  case Nil
  then show ?case by simp
next
  case (Cons e es)
  then show ?case by (cases "es = []") (simp_all add: apply_entry_def)
qed

lemma foldl_apply_entry_counts:
  "endpointCounts (foldl (apply_entry fl) s es)
     = foldl increment (endpointCounts s) (map e_endpoint es)"
  "modelCounts (foldl (apply_entry fl) s es)
     = foldl increment (modelCounts s) (map (\<lambda>e. property_key (e_model e)) es)"
  "providerCounts (foldl (apply_entry fl) s es)
     = foldl increment (providerCounts s) (map e_provider es)"
  by (induction es arbitrary: s; simp add: apply_entry_def)+

lemma increment_other:
  assumes "x \<noteq> k"
  shows "increment c x k = c k"
proof (cases "js_get c x")
  case (Own v)
  then show ?thesis using assms by (cases v) (simp_all add: increment_def)
next
  case Inherited
  then show ?thesis using assms by (simp add: increment_def)
next
  case Absent
  then show ?thesis using assms by (simp add: increment_def)
qed

lemma increment_same:
  "k \<notin> set object_prototype_members \<Longrightarrow>
     increment c k k =
       (case c k of
          None \<Rightarrow> Some (Count 1)
        | Some (Count v) \<Rightarrow> Some (Count (v + 1))
        | Some (Junk s) \<Rightarrow> Some (if s = [] then Count 1 else Junk (s @ ''1'')))"
  by (simp add: increment_def js_get_def split: option.splits count_value.splits)

lemma foldl_increment:
  assumes "k \<notin> set object_prototype_members"
  shows "c k = None \<or> (\<exists>v. c k = Some (Count v)) \<Longrightarrow>
     foldl increment c ks k =
       (if count_list ks k = 0 then c k
        else Some (Count ((case c k of Some (Count v) \<Rightarrow> v | _ \<Rightarrow> 0) + count_list ks k)))"
proof (induction ks arbitrary: c)
  case Nil
  then show ?case by simp
next
  case (Cons x xs)
  have step: "increment c x k =
      (if x = k then Some (Count ((case c k of Some (Count v) \<Rightarrow> v | _ \<Rightarrow> 0) + 1)) else c k)"
    using Cons.prems assms by (auto simp: increment_other increment_same)
  then have inv: "increment c x k = None \<or> (\<exists>v. increment c x k = Some (Count v))"
    using Cons.prems by auto
  have "foldl increment c (x # xs) k = foldl increment (increment c x) xs k"
    by simp
  also have "\<dots> =
      (if count_list xs k = 0 then increment c x k
       else Some (Count ((case increment c x k of Some (Count v) \<Rightarrow> v | _ \<Rightarrow> 0)
                          + count_list xs k)))"
    using inv by (rule Cons.IH)
  also have "\<dots> =
      (if count_list (x # xs) k = 0 then c k
       else Some (Count ((case c k of Some (Count v) \<Rightarrow> v | _ \<Rightarrow> 0) + count_list (x # xs) k)))"
    using Cons.prems by (auto simp: step)
  finally show ?case .
qed

lemma foldl_increment_empty:
  "k \<notin> set object_prototype_members \<Longrightarrow> foldl increment Map.empty ks k = tally ks k"
  by (simp add: foldl_increment tally_def)

lemma update_all_totals:
  assumes "entries \<noteq> []"
    and "userId \<notin> set object_prototype_members"
    and "summaryFile = Unreadable \<or> (\<exists>m. summaryFile = Document ObjectDoc m \<and> m userId = None)"
  shows "\<exists>s. stored_summary userId (update_all fl userId entries summaryFile) = Some s
     \<and> totalRequests s = length entries
     \<and> totalTokens s = tokens_sum fl entries
     \<and> totalCost s = cost_sum fl entries
     \<and> lastSeen s = Some (e_timestamp (last entries))
     \<and> firstSeen s = e_timestamp (hd entries)
     \<and> (\<forall>k. k \<notin> set object_prototype_members \<longrightarrow>
          endpointCounts s k = tally (map e_endpoint entries) k
          \<and> modelCounts s k = tally (map (\<lambda>e. property_key (e_model e)) entries) k
          \<and> providerCounts s k = tally (map e_provider entries) k)"
proof -
  from assms(1) obtain e es where es: "entries = e # es" by (cases entries) auto
  let ?s = "foldl (apply_entry fl) (fresh_summary e) entries"
  have "stored_summary userId (updateUserSummary fl userId e summaryFile)
      = Some (apply_entry fl (fresh_summary e) e)"
    using assms(2,3) by (rule updateUserSummary_unseen)
  then have "stored_summary userId (update_all fl userId es (updateUserSummary fl userId e summaryFile))
      = Some (foldl (apply_entry fl) (apply_entry fl (fresh_summary e) e) es)"
    by (rule update_all_seen)
  then have g: "stored_summary userId (update_all fl userId entries summaryFile) = Some ?s"
    by (simp add: es)
  have 1: "totalRequests ?s = length entries"
    by (simp add: foldl_apply_entry_totals(1) fresh_summary_def)
  have 2: "totalTokens ?s = tokens_sum fl entries"
    by (simp add: foldl_apply_entry_totals(2) fresh_summary_def tokens_sum_def)
  have 3: "totalCost ?s = cost_sum fl entries"
    by (simp add: foldl_apply_entry_totals(3) fresh_summary_def cost_sum_def)
  have 4: "lastSeen ?s = Some (e_timestamp (last entries))"
    using assms(1) by (rule foldl_apply_entry_lastSeen)
  have 5: "firstSeen ?s = e_timestamp (hd entries)"
    by (simp add: foldl_apply_entry_totals(4) fresh_summary_def es del: foldl.simps)
  have 6: "\<forall>k. k \<notin> set object_prototype_members \<longrightarrow>
          endpointCounts ?s k = tally (map e_endpoint entries) k
          \<and> modelCounts ?s k = tally (map (\<lambda>e. property_key (e_model e)) entries) k
          \<and> providerCounts ?s k = tally (map e_provider entries) k"
    by (simp add: foldl_apply_entry_counts fresh_summary_def foldl_increment_empty)
  show ?thesis
    by (rule exI [of _ ?s]) (rule conjI [OF g conjI [OF 1 conjI [OF 2 conjI [OF 3 conjI [OF 4 conjI [OF 5 6]]]]]])
qed

text \<open>Where every rounding is exact, the token total is the sum of the token counts.\<close>

lemma tokens_sum_exact:
  "tokens_sum (\<lambda>x. x) entries = real_of_int (sum_list (map (\<lambda>e. tok_total (e_tokens e)) entries))"
proof -
  have "foldl (\<lambda>a e. a + real_of_int (tok_total (e_tokens e))) a entries
      = a + real_of_int (sum_list (map (\<lambda>e. tok_total (e_tokens e)) entries))" for a
    by (induction entries arbitrary: a) simp_all
  then show ?thesis by (simp add: tokens_sum_def)
qed

subsection \<open>Recent logs\<close>

lemma scan_lines_filter:
  "scan_lines fl now hours ls logs = logs @ filter (recent fl now hours) (dated ls)"
proof (induction ls arbitrary: logs)
  case Nil
  then show ?case by simp
next
  case (Cons l ls)
  then show ?case by (cases l) (simp_all add: recent_def age_hours_def Let_def)
qed

lemma scan_days_done: "\<not> i < 3 \<Longrightarrow> scan_days z fl now hours files i logs = logs"
  by (subst scan_days.simps) simp

lemma scan_days_step:
  "i < 3 \<Longrightarrow>
     scan_days z fl now hours files i logs =
       scan_days z fl now hours files (i + 1)
         (logs @ filter (recent fl now hours) (file_entries files (file_day z now i)))"
  by (subst scan_days.simps) (simp add: file_entries_def scan_lines_filter split: option.splits)

lemma scan_days_files:
  "scan_days z fl now hours files 0 [] =
     filter (recent fl now hours)
       (file_entries files (file_day z now 0) @ file_entries files (file_day z now 1)
          @ file_entries files (file_day z now 2))"
proof -
  let ?f = "\<lambda>i. filter (recent fl now hours) (file_entries files (file_day z now i))"
  have "scan_days z fl now hours files 0 [] = scan_days z fl now hours files (0 + 1) ([] @ ?f 0)"
    by (rule scan_days_step) simp
  also have "\<dots> = scan_days z fl now hours files (0 + 1 + 1) (([] @ ?f 0) @ ?f (0 + 1))"
    by (rule scan_days_step) simp
  also have "\<dots> = scan_days z fl now hours files (0 + 1 + 1 + 1)
      ((([] @ ?f 0) @ ?f (0 + 1)) @ ?f (0 + 1 + 1))"
    by (rule scan_days_step) simp
  also have "\<dots> = (([] @ ?f 0) @ ?f (0 + 1)) @ ?f (0 + 1 + 1)"
    by (rule scan_days_done) simp
  finally show ?thesis by (simp add: numeral_2_eq_2)
qed

lemma getRecentLogs_files:
  "getRecentLogs z fl hours now files =
     sort_desc (filter (recent fl now hours)
       (file_entries files (file_day z now 0) @ file_entries files (file_day z now 1)
          @ file_entries files (file_day z now 2)))"
  by (simp add: getRecentLogs_def scan_days_files)

text \<open>
  Claim C5 says that \<open>getRecentLogs\<close> reads the files of today and of the two UTC days
  before, so that \<open>getRecentLogs(24)\<close> returns an entry ten hours old. In a process
  in New York at 00:30 UTC on 2 November 2026 (day 20759), stepping back by local days
  passes the end of daylight-saving time: the files read are those of days 20759, 20757
  and 20756. An entry of 14:30 UTC on 1 November, ten hours old and lying in the file
  of its day 20758, is not returned.
\<close>

theorem getRecentLogs_new_york_skips_day:
  "day_of 1793579400000 = 20759
   \<and> file_day new_york_2026 1793579400000 0 = 20759
   \<and> file_day new_york_2026 1793579400000 1 = 20757
   \<and> file_day new_york_2026 1793579400000 2 = 20756
   \<and> 1793579400000 - 1793543400000 = 10 * (3600000::int)
   \<and> day_of 1793543400000 = 20758
   \<and> getRecentLogs new_york_2026 fl 24 1793579400000
        (\<lambda>d. if d = 20758 then Some [Dated 1793543400000 ''a''] else None) = []"
proof -
  have d: "file_day new_york_2026 1793579400000 0 = 20759"
    "file_day new_york_2026 1793579400000 1 = 20757"
    "file_day new_york_2026 1793579400000 2 = 20756"
    "file_day new_york_2026 1793579400000 (Suc 0) = 20757"
    by (simp_all add: file_day_def days_back_def new_york_2026_def day_of_def)
  have r: "getRecentLogs new_york_2026 fl 24 1793579400000
        (\<lambda>d. if d = 20758 then Some [Dated 1793543400000 ''a''] else None) = []"
    by (simp add: getRecentLogs_files d file_entries_def sort_desc_def)
  show ?thesis
    by (simp add: r d) (simp add: day_of_def)
qed

text \<open>
  In a zone that keeps its offset over the days in question, the files read are those
  of today and of the two UTC days before, and the result is as the specification says.
\<close>

lemma steady_utc: "steady utc now"
  by (simp add: steady_def days_back_def utc_def)

lemma steady_file_day:
  assumes "steady z now"
  shows "file_day z now 0 = day_of now" "file_day z now 1 = day_of now - 1"
    "file_day z now 2 = day_of now - 2"
proof -
  have s: "(now - k * 86400000) div 86400000 = now div 86400000 - k" for k :: int
  proof -
    have "now - k * 86400000 = now + (- k) * 86400000" by simp
    then show ?thesis by (simp only: div_mult_self1)
  qed
  from s [of 1] s [of 2] assms
  show "file_day z now 0 = day_of now" "file_day z now 1 = day_of now - 1"
    "file_day z now 2 = day_of now - 2"
    by (simp_all add: steady_def file_day_def day_of_def)
qed

lemma steady_file_day_Suc: "steady z now \<Longrightarrow> file_day z now (Suc 0) = day_of now - 1"
  using steady_file_day(2) [of z now] by simp

lemma getRecentLogs_eq:
  "steady z now \<Longrightarrow>
     getRecentLogs z fl hours now files
       = sort_desc (filter (recent fl now hours) (window_entries now files))"
  by (simp add: getRecentLogs_files steady_file_day steady_file_day_Suc window_entries_def)

lemma set_getRecentLogs:
  "steady z now \<Longrightarrow>
     set (getRecentLogs z fl hours now files) =
       {p \<in> set (window_entries now files). age_hours fl now (fst p) \<le> hours}"
  by (auto simp: getRecentLogs_eq sort_desc_def recent_def)

lemma sorted_sort_desc: "sorted_wrt (\<lambda>a b. fst b \<le> fst a) (sort_desc logs)"
proof -
  have "sorted (map (\<lambda>p. - fst p) (sort_desc logs))"
    by (simp add: sort_desc_def)
  then show ?thesis
    by (simp add: sorted_map sorted_wrt_iff_nth_less)
qed

lemma day_four_days: "day_of (now - 345600000) = day_of now - 4"
proof -
  have "now - 345600000 = now + (- 4) * 86400000" by simp
  then have "(now - 345600000) div 86400000 = now div 86400000 - 4"
    by (simp only: div_mult_self1)
  then show ?thesis by (simp add: day_of_def)
qed

lemma filed_by_day_empty: "filed_by_day (\<lambda>d. None)"
  by (simp add: filed_by_day_def file_entries_def)

lemma dated_append: "dated (xs @ ys) = dated xs @ dated ys"
  by (induction xs rule: dated.induct) simp_all

lemma filed_by_day_appendLog:
  assumes "filed_by_day files"
  shows "filed_by_day (appendLog entry files)"
proof -
  let ?d = "day_of (e_timestamp entry)"
  have other: "file_entries (appendLog entry files) d = file_entries files d" if "d \<noteq> ?d" for d
    using that by (simp add: appendLog_def file_entries_def Let_def)
  have same: "file_entries (appendLog entry files) ?d
      = file_entries files ?d @ [(e_timestamp entry, entry)]"
    by (simp add: appendLog_def file_entries_def Let_def dated_append split: option.splits)
  show ?thesis
    unfolding filed_by_day_def
  proof (intro allI impI)
    fix d t e
    assume m: "(t, e) \<in> set (file_entries (appendLog entry files) d)"
    show "day_of t = d"
    proof (cases "d = ?d")
      case True
      with m same have "(t, e) \<in> set (file_entries files ?d) \<or> t = e_timestamp entry"
        by auto
      then show ?thesis using assms True by (auto simp: filed_by_day_def)
    next
      case False
      with m other have "(t, e) \<in> set (file_entries files d)" by simp
      then show ?thesis using assms by (auto simp: filed_by_day_def)
    qed
  qed
qed

lemma filed_by_day_logRequest:
  "filed_by_day (log_files_of st) \<Longrightarrow>
     filed_by_day (log_files_of (logRequest fl now userId endpoint model responseData st))"
  by (simp add: logRequest_def Let_def filed_by_day_appendLog)

lemma getRecentLogs_window:
  assumes "steady z now"
  shows "((\<forall>i \<in> {0, 1, 2}. files' (day_of now - i) = files (day_of now - i))
      \<longrightarrow> getRecentLogs z fl hours now files' = getRecentLogs z fl hours now files)
   \<and> mset (getRecentLogs z fl hours now files)
       = mset (filter (\<lambda>p. age_hours fl now (fst p) \<le> hours) (window_entries now files))
   \<and> sorted_wrt (\<lambda>a b. fst b \<le> fst a) (getRecentLogs z fl hours now files)
   \<and> (filed_by_day files \<longrightarrow> (now - 345600000, e') \<notin> set (getRecentLogs z fl hours now files))"
proof -
  note eq = getRecentLogs_eq [OF assms]
  have a: "(\<forall>i \<in> {0, 1, 2}. files' (day_of now - i) = files (day_of now - i))
      \<longrightarrow> getRecentLogs z fl hours now files' = getRecentLogs z fl hours now files"
    by (simp add: eq window_entries_def file_entries_def)
  have b: "mset (getRecentLogs z fl hours now files)
       = mset (filter (\<lambda>p. age_hours fl now (fst p) \<le> hours) (window_entries now files))"
    by (simp add: eq sort_desc_def recent_def)
  have c: "sorted_wrt (\<lambda>a b. fst b \<le> fst a) (getRecentLogs z fl hours now files)"
    by (simp add: getRecentLogs_def sorted_sort_desc)
  have e: "(now - 345600000, e') \<notin> set (getRecentLogs z fl hours now files)" if "filed_by_day files"
  proof
    assume "(now - 345600000, e') \<in> set (getRecentLogs z fl hours now files)"
    then have "(now - 345600000, e') \<in> set (window_entries now files)"
      by (simp add: set_getRecentLogs [OF assms])
    then consider "(now - 345600000, e') \<in> set (file_entries files (day_of now))"
      | "(now - 345600000, e') \<in> set (file_entries files (day_of now - 1))"
      | "(now - 345600000, e') \<in> set (file_entries files (day_of now - 2))"
      by (auto simp: window_entries_def)
    then show False
    proof cases
      case 1
      with that have "day_of (now - 345600000) = day_of now"
        unfolding filed_by_day_def by blast
      then show False by (simp add: day_four_days)
    next
      case 2
      with that have "day_of (now - 345600000) = day_of now - 1"
        unfolding filed_by_day_def by blast
      then show False by (simp add: day_four_days)
    next
      case 3
      with that have "day_of (now - 345600000) = day_of now - 2"
        unfolding filed_by_day_def by blast
      then show False by (simp add: day_four_days)
    qed
  qed
  from a b c e show ?thesis by blast
qed


end
